theory Spec2Isabelle
  imports Main "HOL-Library.Word" "HOL-Library.Sublist"
begin

section \<open>librpc: the typing layer and the server life cycle\<close>

text \<open>
  A shallow embedding of the functions of \<^verbatim>\<open>src/src/rpc_server.c\<close> that the
  specification speaks about: the server's accept and close, type lookup, type
  instantiation with its cache, the canonical form, typedef unwinding, the compatibility
  check and the validation of call arguments.

  Conventions of the model.
  \<^item> A C pointer that may be \<^verbatim>\<open>NULL\<close> is an \<open>option\<close>; \<open>None\<close> is \<^verbatim>\<open>NULL\<close>.
  \<^item> A \<^verbatim>\<open>struct rpct_typei *\<close> is an index into the list of all type instances
    allocated so far (\<open>typeis\<close>); allocation appends. A cell that \<^verbatim>\<open>g_free\<close> has released
    stays in the list, marked as freed, and every access to it is the fault
    \<open>Use_after_free\<close>.
  \<^item> A \<^verbatim>\<open>struct rpct_type\<close> never changes after \<^verbatim>\<open>rpct_read_type\<close> has built it and its
    parent is resolved before it is allocated, so a type is a value that contains its parent.
  \<^item> Dereferencing \<^verbatim>\<open>NULL\<close>, reading past the end of an array and a failed assertion are
    values of type \<open>fault\<close>, returned as \<open>Inl\<close>.
  \<^item> A function that contains a loop over pointers returns an \<open>option\<close>: \<open>None\<close> means
    that the C function does not return.
\<close>

subsection \<open>Data\<close>

datatype fault =
  Null_dereference | Out_of_bounds_read | Invalid_pointer | Use_after_free | Assertion_failed

type_synonym typei_ptr = nat

datatype rpct_class =
  RPC_TYPING_STRUCT | RPC_TYPING_UNION | RPC_TYPING_ENUM | RPC_TYPING_TYPEDEF | RPC_TYPING_BUILTIN

text \<open>
  \<^verbatim>\<open>struct rpct_type\<close>. The fields \<^verbatim>\<open>description\<close>, \<^verbatim>\<open>origin\<close>, \<^verbatim>\<open>file\<close>, \<^verbatim>\<open>members\<close> and
  \<^verbatim>\<open>constraints\<close> are read by none of the functions below and are left out.
\<close>

datatype rpct_type = Rpct_type
  (t_name: string)
  (t_parent: "rpct_type option")
  (t_clazz: rpct_class)
  (t_generic: bool)
  (t_generic_vars: "string list")
  (t_definition: "typei_ptr option")

text \<open>
  \<^verbatim>\<open>struct rpct_typei\<close>. \<open>ti_specializations\<close> is the \<^verbatim>\<open>GHashTable\<close> from generic variable
  to type instance, as the list of its entries in insertion order; a proxy, whose table
  pointer is \<^verbatim>\<open>NULL\<close>, has the empty list (GLib answers size 0 and lookup \<^verbatim>\<open>NULL\<close> for a
  \<^verbatim>\<open>NULL\<close> table). \<open>ti_refcnt\<close> is the field \<^verbatim>\<open>refcnt\<close>. \<open>ti_freed\<close> is no field of the
  struct: it says that the cell has been freed.
\<close>

record rpct_typei =
  ti_proxy :: bool
  ti_type :: "rpct_type option"
  ti_variable :: "string option"
  ti_canonical_form :: "string option"
  ti_specializations :: "(string \<times> typei_ptr) list"
  ti_parent :: "typei_ptr option"
  ti_refcnt :: int
  ti_freed :: bool

record rpct_argument =
  arg_name :: string
  arg_description :: "string option"
  arg_type :: typei_ptr

datatype rpc_if_member_type = RPC_MEMBER_EVENT | RPC_MEMBER_PROPERTY | RPC_MEMBER_METHOD

text \<open>
  \<^verbatim>\<open>struct rpct_if_member\<close>. \<open>rim_arguments\<close> is the \<^verbatim>\<open>GPtrArray *arguments\<close>: only
  \<^verbatim>\<open>rpct_read_method\<close> allocates it, a property and an event keep \<^verbatim>\<open>NULL\<close>.
\<close>

record rpct_if_member =
  rim_name :: string
  rim_type :: rpc_if_member_type
  rim_description :: "string option"
  rim_arguments :: "rpct_argument list option"
  rim_result :: "typei_ptr option"

record rpct_interface =
  if_name :: string
  if_members :: "string \<rightharpoonup> rpct_if_member"

text \<open>\<^verbatim>\<open>struct rpct_file\<close>: the declared namespace may be absent, \<open>uses\<close> is an array.\<close>

record rpct_file =
  file_path :: string
  ns :: "string option"
  uses :: "string list"

text \<open>\<^verbatim>\<open>struct rpct_context\<close>: the hash tables by name and the type instances allocated.\<close>

record rpct_context =
  types :: "string \<rightharpoonup> rpct_type"
  interfaces :: "string \<rightharpoonup> rpct_interface"
  typei_cache :: "string \<rightharpoonup> typei_ptr"
  typeis :: "rpct_typei list"

definition deref :: "rpct_typei list \<Rightarrow> typei_ptr \<Rightarrow> fault + rpct_typei" where
  "deref h p =
     (if p < length h then (if ti_freed (h ! p) then Inl Use_after_free else Inr (h ! p))
      else Inl Invalid_pointer)"

subsection \<open>Index accessors\<close>

text \<open>
  \<^verbatim>\<open>g_ptr_array_index(array, i)\<close> is the macro \<^verbatim>\<open>array->pdata[i]\<close>: it checks nothing, so an
  index that is not below the length reads past the end. The result \<open>Inr None\<close> of the
  accessors is the \<^verbatim>\<open>NULL\<close> they return.
\<close>

definition g_ptr_array_index :: "'a list \<Rightarrow> nat \<Rightarrow> fault + 'a option" where
  "g_ptr_array_index xs i = (if i < length xs then Inr (Some (xs ! i)) else Inl Out_of_bounds_read)"

text \<open>
  \<^verbatim>\<open>if (index < 0 || index > (int)type->generic_vars->len) return (NULL);\<close>
  with \<^verbatim>\<open>int index\<close> a signed 32-bit integer and \<^verbatim>\<open>len\<close> a \<^verbatim>\<open>guint\<close> cast to it.
\<close>

definition rpct_type_get_generic_var :: "rpct_type \<Rightarrow> 32 word \<Rightarrow> fault + string option" where
  "rpct_type_get_generic_var type index =
     (let len = (word_of_nat (length (t_generic_vars type)) :: 32 word) in
      if sint index < 0 \<or> sint index > sint len then Inr None
      else g_ptr_array_index (t_generic_vars type) (nat (sint index)))"

definition rpct_method_get_argument ::
  "rpct_if_member \<Rightarrow> 32 word \<Rightarrow> fault + rpct_argument option" where
  "rpct_method_get_argument method index =
     (case rim_arguments method of
        None \<Rightarrow> (if sint index < 0 then Inr None else Inl Null_dereference)
      | Some arguments \<Rightarrow>
          (let len = (word_of_nat (length arguments) :: 32 word) in
           if sint index < 0 \<or> sint index > sint len then Inr None
           else g_ptr_array_index arguments (nat (sint index))))"

subsection \<open>Type lookup\<close>

text \<open>
  \<^verbatim>\<open>rpct_find_type\<close> looks the name up in \<^verbatim>\<open>context->types\<close>; on a miss it tries to load the
  type from the IDL files read so far (\<^verbatim>\<open>rpct_lookup_type\<close>, then \<^verbatim>\<open>rpct_read_type\<close>) and
  looks the name up again. Loading runs the class handlers and the \<^verbatim>\<open>TYPE_REGEX\<close>, which
  are not among the sources, so the loading step is the parameter \<open>chain_load\<close>:
  any function from the name and the context to the context after the attempt.
\<close>

type_synonym loader = "string \<Rightarrow> rpct_context \<Rightarrow> rpct_context"

definition rpct_find_type :: "loader \<Rightarrow> string \<Rightarrow> rpct_context \<Rightarrow> rpct_type option \<times> rpct_context" where
  "rpct_find_type chain_load name ctx =
     (case types ctx name of
        Some type \<Rightarrow> (Some type, ctx)
      | None \<Rightarrow> (let ctx' = chain_load name ctx in (types ctx' name, ctx')))"

text \<open>\<^verbatim>\<open>g_strdup_printf("%s.%s", prefix, name)\<close>\<close>

definition full_name :: "string \<Rightarrow> string \<Rightarrow> string" where
  "full_name pfx name = pfx @ ''.'' @ name"

text \<open>The \<^verbatim>\<open>for\<close> loop of \<^verbatim>\<open>rpct_find_type_fuzzy\<close> over \<^verbatim>\<open>origin->uses\<close>.\<close>

fun find_type_in_uses ::
  "loader \<Rightarrow> string \<Rightarrow> string list \<Rightarrow> rpct_context \<Rightarrow> rpct_type option \<times> rpct_context" where
  "find_type_in_uses chain_load name [] ctx = (None, ctx)"
| "find_type_in_uses chain_load name (pfx # rest) ctx =
     (case rpct_find_type chain_load (full_name pfx name) ctx of
        (Some result, ctx') \<Rightarrow> (Some result, ctx')
      | (None, ctx') \<Rightarrow> find_type_in_uses chain_load name rest ctx')"

definition rpct_find_type_fuzzy ::
  "loader \<Rightarrow> string \<Rightarrow> rpct_file option \<Rightarrow> rpct_context \<Rightarrow> rpct_type option \<times> rpct_context" where
  "rpct_find_type_fuzzy chain_load name origin ctx =
     (case rpct_find_type chain_load name ctx of
        (Some result, ctx1) \<Rightarrow> (Some result, ctx1)
      | (None, ctx1) \<Rightarrow>
          (case origin of
             None \<Rightarrow> (None, ctx1)
           | Some file \<Rightarrow>
               (case (case ns file of
                        Some n \<Rightarrow> rpct_find_type chain_load (full_name n name) ctx1
                      | None \<Rightarrow> (None, ctx1)) of
                  (Some result, ctx2) \<Rightarrow> (Some result, ctx2)
                | (None, ctx2) \<Rightarrow> find_type_in_uses chain_load name (uses file) ctx2)))"

text \<open>
  The resolution order in the specification's words: the candidates of a name in a file,
  in order, and the first candidate that \<^verbatim>\<open>rpct_find_type\<close> finds. Each look-up runs in
  the context the look-ups before it left behind.
\<close>

definition fuzzy_candidates :: "string \<Rightarrow> rpct_file \<Rightarrow> string list" where
  "fuzzy_candidates name file =
     name # (case ns file of None \<Rightarrow> [] | Some n \<Rightarrow> [full_name n name])
          @ map (\<lambda>pfx. full_name pfx name) (uses file)"

fun first_found ::
  "loader \<Rightarrow> string list \<Rightarrow> rpct_context \<Rightarrow> rpct_type option \<times> rpct_context" where
  "first_found chain_load [] ctx = (None, ctx)"
| "first_found chain_load (candidate # rest) ctx =
     (case rpct_find_type chain_load candidate ctx of
        (Some result, ctx') \<Rightarrow> (Some result, ctx')
      | (None, ctx') \<Rightarrow> first_found chain_load rest ctx')"

subsection \<open>Server: accept, remove a connection, close\<close>

type_synonym rpc_connection_t = nat
type_synonym rpc_server_t = nat

datatype rpc_server_event_t = RPC_CONNECTION_ARRIVED | RPC_CONNECTION_TERMINATED

text \<open>
  \<^verbatim>\<open>struct rpc_dispatch_item\<close> as \<^verbatim>\<open>rpc_server_accept\<close> fills it: the connection, the event
  code and the server.
\<close>

datatype rpc_dispatch_item =
  Connection_item rpc_connection_t rpc_server_event_t rpc_server_t

text \<open>
  \<^verbatim>\<open>struct rpc_server\<close>: the closed flag, the connection list and the teardown hook. The
  hook belongs to the transport; the model keeps the integer it returns (\<open>None\<close>: no hook).
\<close>

record rpc_server =
  rs_closed :: bool
  rs_connections :: "rpc_connection_t list"
  rs_teardown :: "int option"

text \<open>
  Modelled from the spec: \<^verbatim>\<open>rpc_context_dispatch\<close> is not among the sources; by the
  specification (section 4.4) it enqueues the item for the workers of the context. The
  field \<open>rcx_dispatched\<close> keeps the items handed to it, in order.
\<close>

record rpc_context =
  rcx_servers :: "rpc_server_t list"
  rcx_dispatched :: "rpc_dispatch_item list"

text \<open>
  The functions take the address \<open>self\<close> of the server and the pair of the server struct
  and its context.
\<close>

definition rpc_server_accept ::
  "rpc_server_t \<Rightarrow> rpc_connection_t \<Rightarrow> rpc_server \<times> rpc_context \<Rightarrow> int \<times> rpc_server \<times> rpc_context" where
  "rpc_server_accept self conn st =
     (case st of (server, context) \<Rightarrow>
        if rs_closed server then (- 1, server, context)
        else (0,
              server\<lparr>rs_connections := rs_connections server @ [conn]\<rparr>,
              context\<lparr>rcx_dispatched :=
                 rcx_dispatched context @ [Connection_item conn RPC_CONNECTION_ARRIVED self]\<rparr>))"

text \<open>The loop finds the first link that holds \<open>conn\<close> and unlinks it.\<close>

definition rpc_server_remove_connection ::
  "rpc_server \<Rightarrow> rpc_connection_t \<Rightarrow> int \<times> rpc_server" where
  "rpc_server_remove_connection server conn =
     (if conn \<in> set (rs_connections server)
      then (0, server\<lparr>rs_connections := remove1 conn (rs_connections server)\<rparr>)
      else (- 1, server))"

text \<open>
  \<^verbatim>\<open>while (server->rs_connections != NULL) g_cond_wait(&server->rs_cv, &server->rs_mtx);\<close>
  The list shrinks only when another thread delivers the termination of a connection
  (\<^verbatim>\<open>rpc_server_connection_change\<close> calls \<^verbatim>\<open>rpc_server_remove_connection\<close>). The second
  argument is the sequence of connections whose termination is delivered while the
  caller waits; the result says whether the wait ends, and gives the server then.
\<close>

fun wait_for_drain :: "rpc_server \<Rightarrow> rpc_connection_t list \<Rightarrow> bool \<times> rpc_server" where
  "wait_for_drain server [] = (rs_connections server = [], server)"
| "wait_for_drain server (conn # rest) =
     (if rs_connections server = [] then (True, server)
      else wait_for_drain (snd (rpc_server_remove_connection server conn)) rest)"

text \<open>
  \<^verbatim>\<open>rpc_server_close\<close>. \<^verbatim>\<open>g_ptr_array_remove\<close> removes the first occurrence of the pointer
  and says whether there was one. The return value is \<open>None\<close> when the wait for the
  connections to drain never ends; the state is the one the function has reached.
\<close>

definition rpc_server_close ::
  "rpc_server_t \<Rightarrow> rpc_connection_t list \<Rightarrow> rpc_server \<times> rpc_context
   \<Rightarrow> int option \<times> rpc_server \<times> rpc_context" where
  "rpc_server_close self terminated st =
     (case st of (server, context) \<Rightarrow>
        (let present = (self \<in> set (rcx_servers context));
             context' = context\<lparr>rcx_servers := remove1 self (rcx_servers context)\<rparr>
         in if \<not> present then (Some (- 1), server, context')
            else
              (let server1 = server\<lparr>rs_closed := True\<rparr>;
                   ret = (case rs_teardown server1 of Some r \<Rightarrow> r | None \<Rightarrow> 0)
               in if rs_connections server1 \<noteq> [] then
                    (case wait_for_drain server1 terminated of
                       (True, server2) \<Rightarrow> (Some ret, server2, context')
                     | (False, server2) \<Rightarrow> (None, server2, context'))
                  else (Some ret, server1, context'))))"

text \<open>A sequence of accepts on the same server, each in the state the one before left.\<close>

fun rpc_server_accept_each ::
  "rpc_server_t \<Rightarrow> rpc_connection_t list \<Rightarrow> rpc_server \<times> rpc_context
   \<Rightarrow> int list \<times> rpc_server \<times> rpc_context" where
  "rpc_server_accept_each self [] st = ([], st)"
| "rpc_server_accept_each self (conn # rest) st =
     (case rpc_server_accept self conn st of
        (r, st') \<Rightarrow> (case rpc_server_accept_each self rest st' of (rs, st'') \<Rightarrow> (r # rs, st'')))"


subsection \<open>Objects and validation errors\<close>

datatype rpc_type_t =
  RPC_TYPE_NULL | RPC_TYPE_BOOL | RPC_TYPE_UINT64 | RPC_TYPE_INT64 | RPC_TYPE_DOUBLE
| RPC_TYPE_DATE | RPC_TYPE_STRING | RPC_TYPE_BINARY | RPC_TYPE_FD | RPC_TYPE_DICTIONARY
| RPC_TYPE_ARRAY | RPC_TYPE_ERROR

text \<open>
  \<^verbatim>\<open>struct rpc_object\<close>: the tag, the type instance annotation (\<^verbatim>\<open>ro_typei\<close>, \<^verbatim>\<open>NULL\<close> for an
  untyped object) and the value, whose representation plays no role here.
\<close>

record 'v rpc_object =
  ro_type :: rpc_type_t
  ro_typei :: "typei_ptr option"
  ro_value :: 'v

text \<open>
  Modelled from the spec: \<^verbatim>\<open>rpc_get_type_name\<close> is defined in the object model, which is
  not among the sources. The names are the specification's names of the object kinds
  (section 3.1); \<^verbatim>\<open>rpct_deserialize\<close> confirms \<^verbatim>\<open>"null"\<close> for the null object.
\<close>

fun rpc_get_type_name :: "rpc_type_t \<Rightarrow> string" where
  "rpc_get_type_name RPC_TYPE_NULL = ''null''"
| "rpc_get_type_name RPC_TYPE_BOOL = ''bool''"
| "rpc_get_type_name RPC_TYPE_UINT64 = ''uint64''"
| "rpc_get_type_name RPC_TYPE_INT64 = ''int64''"
| "rpc_get_type_name RPC_TYPE_DOUBLE = ''double''"
| "rpc_get_type_name RPC_TYPE_DATE = ''date''"
| "rpc_get_type_name RPC_TYPE_STRING = ''string''"
| "rpc_get_type_name RPC_TYPE_BINARY = ''binary''"
| "rpc_get_type_name RPC_TYPE_FD = ''fd''"
| "rpc_get_type_name RPC_TYPE_DICTIONARY = ''dictionary''"
| "rpc_get_type_name RPC_TYPE_ARRAY = ''array''"
| "rpc_get_type_name RPC_TYPE_ERROR = ''error''"

record 'v rpct_validation_error =
  err_path :: string
  err_message :: string
  err_extra :: "'v rpc_object option"

text \<open>
  \<^verbatim>\<open>struct rpct_error_context\<close>. The array \<^verbatim>\<open>errors\<close> is shared by all contexts derived from
  one; a function that appends to it returns the context with the longer array.
\<close>

record 'v rpct_error_context =
  ec_path :: string
  ec_errors :: "'v rpct_validation_error list"

definition rpct_add_error ::
  "'v rpct_error_context \<Rightarrow> 'v rpc_object option \<Rightarrow> string \<Rightarrow> 'v rpct_error_context" where
  "rpct_add_error ctx extra message =
     ctx\<lparr>ec_errors := ec_errors ctx
            @ [\<lparr>err_path = ec_path ctx, err_message = message, err_extra = extra\<rparr>]\<rparr>"

text \<open>The conversion \<^verbatim>\<open>%s\<close> of GLib's \<^verbatim>\<open>printf\<close> prints \<^verbatim>\<open>(null)\<close> for \<^verbatim>\<open>NULL\<close>.\<close>

definition fmt_s :: "string option \<Rightarrow> string" where
  "fmt_s s = (case s of None \<Rightarrow> ''(null)'' | Some str \<Rightarrow> str)"

text \<open>\<^verbatim>\<open>g_string_append\<close> appends nothing for \<^verbatim>\<open>NULL\<close>.\<close>

definition fmt_s_or_empty :: "string option \<Rightarrow> string" where
  "fmt_s_or_empty s = (case s of None \<Rightarrow> [] | Some str \<Rightarrow> str)"

text \<open>The conversion \<^verbatim>\<open>%jd\<close> of a count.\<close>

fun fmt_jd :: "nat \<Rightarrow> string" where
  "fmt_jd n = (if n < 10 then [''0123456789'' ! n]
               else fmt_jd (n div 10) @ [''0123456789'' ! (n mod 10)])"

declare fmt_jd.simps [simp del]

definition incompatible_message :: "string option \<Rightarrow> string option \<Rightarrow> string" where
  "incompatible_message actual expected =
     ''Incompatible type '' @ fmt_s actual @ '', should be '' @ fmt_s expected"

subsection \<open>Unwinding typedefs\<close>

text \<open>
  \<^verbatim>\<open>rpct_unwind_typei\<close>: the loop follows \<^verbatim>\<open>current->type->definition\<close> while the class of
  \<^verbatim>\<open>current->type\<close> is typedef. \<^verbatim>\<open>current->type\<close> is \<^verbatim>\<open>NULL\<close> for a proxy. The result
  \<open>Some (Inr None)\<close> is the \<^verbatim>\<open>NULL\<close> the function returns when the chain ends in \<^verbatim>\<open>NULL\<close>.
\<close>

partial_function (option) rpct_unwind_typei ::
  "rpct_typei list \<Rightarrow> typei_ptr option \<Rightarrow> (fault + typei_ptr option) option" where
  "rpct_unwind_typei h current =
     (case current of
        None \<Rightarrow> Some (Inr None)
      | Some p \<Rightarrow>
          (case deref h p of
             Inl f \<Rightarrow> Some (Inl f)
           | Inr cur \<Rightarrow>
               (case ti_type cur of
                  None \<Rightarrow> Some (Inl Null_dereference)
                | Some type \<Rightarrow>
                    if t_clazz type = RPC_TYPING_TYPEDEF
                    then rpct_unwind_typei h (t_definition type)
                    else Some (Inr (Some p)))))"

text \<open>
  One step of the chain: \<open>(q, p)\<close> is an edge when the instance at \<open>p\<close> is of a typedef
  whose definition is the instance at \<open>q\<close>. Typedefs form no cycle when the edges do not.
\<close>

definition typedef_edges :: "rpct_typei list \<Rightarrow> (typei_ptr \<times> typei_ptr) set" where
  "typedef_edges h =
     {(q, p). p < length h \<and>
        (\<exists>type. ti_type (h ! p) = Some type \<and> t_clazz type = RPC_TYPING_TYPEDEF
                \<and> t_definition type = Some q)}"

subsection \<open>Compatibility\<close>

text \<open>
  The \<^verbatim>\<open>while (1)\<close> loop of \<^verbatim>\<open>rpct_type_is_compatible\<close>: it steps to the parent first, stops
  with \<open>False\<close> at \<^verbatim>\<open>NULL\<close>, and with \<open>True\<close> at a parent whose name equals the name passed,
  which is \<^verbatim>\<open>type->type->name\<close> in the source.
\<close>

fun parent_named :: "string \<Rightarrow> rpct_type \<Rightarrow> bool" where
  "parent_named nm (Rpct_type n par c g gv d) =
     (case par of
        None \<Rightarrow> False
      | Some parent_type \<Rightarrow> if t_name parent_type = nm then True else parent_named nm parent_type)"

definition rpct_type_is_compatible :: "rpct_typei \<Rightarrow> rpct_typei \<Rightarrow> fault + bool" where
  "rpct_type_is_compatible decl type =
     (case ti_type decl of
        None \<Rightarrow> Inl Null_dereference
      | Some decl_type \<Rightarrow>
          if t_name decl_type = ''any'' then Inr True
          else if length (ti_specializations decl) < length (ti_specializations type)
          then Inr False
          else
            (case ti_type type of
               None \<Rightarrow> Inl Null_dereference
             | Some type_type \<Rightarrow>
                 if t_name decl_type \<noteq> t_name type_type
                 then Inr (parent_named (t_name type_type) type_type)
                 else Inr True))"

text \<open>
  The relation in the specification's words: the parent chain of a type reaches another
  type, and the compatibility of a declared instance with an actual one, from the two
  types and the numbers of specializations bound.
\<close>

fun parent_chain_reaches :: "rpct_type \<Rightarrow> rpct_type \<Rightarrow> bool" where
  "parent_chain_reaches (Rpct_type n par c g gv d) target =
     (case par of
        None \<Rightarrow> False
      | Some parent_type \<Rightarrow> parent_type = target \<or> parent_chain_reaches parent_type target)"

definition is_compatible_spec ::
  "rpct_type \<Rightarrow> nat \<Rightarrow> rpct_type \<Rightarrow> nat \<Rightarrow> bool" where
  "is_compatible_spec decl_type decl_bound type_type type_bound =
     (if t_name decl_type = ''any'' then True
      else if decl_bound > type_bound then False
      else (t_name decl_type = t_name type_type \<or> parent_chain_reaches type_type decl_type))"

subsection \<open>Validation\<close>

text \<open>
  The class handlers (\<^verbatim>\<open>rpc_find_class_handler\<close> and the \<^verbatim>\<open>validate_fn\<close> of each class) are
  not among the sources: the table of handlers is a parameter, a partial map from the class
  to the validator. A validator gets the type instances, the unwound instance, the object
  and the error context, and returns its verdict and the error context it leaves.
\<close>

type_synonym 'v validate_fn =
  "rpct_typei list \<Rightarrow> typei_ptr \<Rightarrow> 'v rpc_object \<Rightarrow> 'v rpct_error_context
   \<Rightarrow> bool \<times> 'v rpct_error_context"

type_synonym 'v class_handlers = "rpct_class \<Rightarrow> 'v validate_fn option"

text \<open>The label \<^verbatim>\<open>step3\<close>: find the handler of the class, assert it, run its validator.\<close>

definition validate_step3 ::
  "'v class_handlers \<Rightarrow> rpct_typei list \<Rightarrow> typei_ptr \<Rightarrow> rpct_typei \<Rightarrow> 'v rpc_object
   \<Rightarrow> 'v rpct_error_context \<Rightarrow> (fault + bool \<times> 'v rpct_error_context) option" where
  "validate_step3 handlers h raw raw_typei obj errctx =
     (case ti_type raw_typei of
        None \<Rightarrow> Some (Inl Null_dereference)
      | Some type \<Rightarrow>
          (case handlers (t_clazz type) of
             None \<Rightarrow> Some (Inl Assertion_failed)
           | Some validate_fn \<Rightarrow> Some (Inr (validate_fn h raw obj errctx))))"

definition rpct_validate_instance ::
  "'v class_handlers \<Rightarrow> rpct_typei list \<Rightarrow> typei_ptr \<Rightarrow> 'v rpc_object
   \<Rightarrow> 'v rpct_error_context \<Rightarrow> (fault + bool \<times> 'v rpct_error_context) option" where
  "rpct_validate_instance handlers h typei obj errctx =
     (case rpct_unwind_typei h (Some typei) of
        None \<Rightarrow> None
      | Some (Inl f) \<Rightarrow> Some (Inl f)
      | Some (Inr None) \<Rightarrow> Some (Inl Null_dereference)
      | Some (Inr (Some raw)) \<Rightarrow>
          (case deref h raw of
             Inl f \<Rightarrow> Some (Inl f)
           | Inr raw_typei \<Rightarrow>
               (case ro_typei obj of
                  None \<Rightarrow>
                    if ti_canonical_form raw_typei = Some ''any''
                    then validate_step3 handlers h raw raw_typei obj errctx
                    else if ti_canonical_form raw_typei = Some ''nullptr''
                            \<and> ro_type obj = RPC_TYPE_NULL
                    then validate_step3 handlers h raw raw_typei obj errctx
                    else if Some (rpc_get_type_name (ro_type obj)) = ti_canonical_form raw_typei
                    then validate_step3 handlers h raw raw_typei obj errctx
                    else Some (Inr (False, rpct_add_error errctx None
                           (incompatible_message (Some (rpc_get_type_name (ro_type obj)))
                              (ti_canonical_form raw_typei))))
                | Some op \<Rightarrow>
                    (case deref h op of
                       Inl f \<Rightarrow> Some (Inl f)
                     | Inr obj_typei \<Rightarrow>
                         (case rpct_type_is_compatible raw_typei obj_typei of
                            Inl f \<Rightarrow> Some (Inl f)
                          | Inr compatible \<Rightarrow>
                              if \<not> compatible
                              then Some (Inr (False, rpct_add_error errctx None
                                     (incompatible_message (ti_canonical_form obj_typei)
                                        (ti_canonical_form (h ! typei)))))
                              else validate_step3 handlers h raw raw_typei obj errctx)))))"

text \<open>
  Modelled from the spec: \<^verbatim>\<open>rpc_array_apply\<close> belongs to the object model, which is not
  among the sources; by the specification (section 4.1) it calls the block on each element
  in order and stops early when the block says so, which the block does by returning
  false. The function below runs the block that \<^verbatim>\<open>rpct_validate_args\<close> passes to it over
  the elements of the argument array from index \<open>idx\<close> on. The block returns false at the
  first index that is not below the number of declared arguments.
\<close>

fun validate_args_apply ::
  "'v class_handlers \<Rightarrow> rpct_typei list \<Rightarrow> rpct_argument list \<Rightarrow> nat \<Rightarrow> 'v rpc_object list
   \<Rightarrow> bool \<times> 'v rpct_error_context \<Rightarrow> (fault + bool \<times> 'v rpct_error_context) option" where
  "validate_args_apply handlers h arguments idx [] st = Some (Inr st)"
| "validate_args_apply handlers h arguments idx (i # rest) st =
     (if idx \<ge> length arguments then Some (Inr st)
      else
        (case rpct_validate_instance handlers h (arg_type (arguments ! idx)) i (snd st) of
           None \<Rightarrow> None
         | Some (Inl f) \<Rightarrow> Some (Inl f)
         | Some (Inr (ok, errctx)) \<Rightarrow>
             validate_args_apply handlers h arguments (Suc idx) rest
               (if \<not> ok then False else fst st, errctx)))"

text \<open>
  \<^verbatim>\<open>rpct_validate_args\<close>. The flag \<open>want_errors\<close> says that the caller passed a non-\<^verbatim>\<open>NULL\<close>
  \<^verbatim>\<open>errors\<close>; the second component of the result is the array stored through it, \<open>None\<close>
  when nothing is stored.
\<close>

definition rpct_validate_args ::
  "'v class_handlers \<Rightarrow> rpct_typei list \<Rightarrow> rpct_if_member \<Rightarrow> 'v rpc_object list \<Rightarrow> bool
   \<Rightarrow> (fault + bool \<times> 'v rpct_validation_error list option) option" where
  "rpct_validate_args handlers h func args want_errors =
     (case rim_arguments func of
        None \<Rightarrow> Some (Inr (True, None))
      | Some arguments \<Rightarrow>
          (case validate_args_apply handlers h arguments 0 args
                  (True, \<lparr>ec_path = [], ec_errors = []\<rparr>) of
             None \<Rightarrow> None
           | Some (Inl f) \<Rightarrow> Some (Inl f)
           | Some (Inr (valid, errctx)) \<Rightarrow>
               Some (Inr (valid, if want_errors then Some (ec_errors errctx) else None))))"

text \<open>
  The validation of arguments in the specification's words: each argument is validated
  against the type of the declared argument at its position, in order; the verdict is
  true when every single verdict is, and the errors accumulate in the error context. The
  list pairs the declared types with the arguments.
\<close>

fun validate_each ::
  "'v class_handlers \<Rightarrow> rpct_typei list \<Rightarrow> (typei_ptr \<times> 'v rpc_object) list
   \<Rightarrow> bool \<times> 'v rpct_error_context \<Rightarrow> (fault + bool \<times> 'v rpct_error_context) option" where
  "validate_each handlers h [] st = Some (Inr st)"
| "validate_each handlers h ((typei, obj) # rest) st =
     (case rpct_validate_instance handlers h typei obj (snd st) of
        None \<Rightarrow> None
      | Some (Inl f) \<Rightarrow> Some (Inl f)
      | Some (Inr (ok, errctx)) \<Rightarrow> validate_each handlers h rest (fst st \<and> ok, errctx))"

definition rpct_validate ::
  "'v class_handlers \<Rightarrow> rpct_typei list \<Rightarrow> typei_ptr \<Rightarrow> 'v rpc_object \<Rightarrow> bool
   \<Rightarrow> (fault + bool \<times> 'v rpct_validation_error list option) option" where
  "rpct_validate handlers h typei obj want_errors =
     (case rpct_validate_instance handlers h typei obj \<lparr>ec_path = [], ec_errors = []\<rparr> of
        None \<Rightarrow> None
      | Some (Inl f) \<Rightarrow> Some (Inl f)
      | Some (Inr (valid, errctx)) \<Rightarrow>
          Some (Inr (valid, if want_errors then Some (ec_errors errctx) else None)))"

definition rpct_validate_return ::
  "'v class_handlers \<Rightarrow> rpct_typei list \<Rightarrow> rpct_if_member \<Rightarrow> 'v rpc_object \<Rightarrow> bool
   \<Rightarrow> (fault + bool \<times> 'v rpct_validation_error list option) option" where
  "rpct_validate_return handlers h func result want_errors =
     (case rim_result func of
        None \<Rightarrow> Some (Inr (True, None))
      | Some result_typei \<Rightarrow> rpct_validate handlers h result_typei result want_errors)"

subsection \<open>Call hooks\<close>

text \<open>
  The error object that \<^verbatim>\<open>rpc_error_create(code, message, extra)\<close> builds, the frames sent
  to the peer for a call, and the fields of \<^verbatim>\<open>struct rpc_inbound_call\<close> that the hooks use;
  \<open>ric_sent\<close> collects the frames sent for the call, in order.
\<close>

record 'v rpc_error =
  error_code :: int
  error_message :: string
  error_extra :: "'v rpct_validation_error list"

datatype 'v rpc_frame = Error_frame "'v rpc_error" | Response_frame "'v rpc_object"

record 'v rpc_inbound_call =
  ric_interface :: string
  ric_name :: string
  ric_responded :: bool
  ric_sent :: "'v rpc_frame list"

definition EINVAL :: int where
  "EINVAL = 22"

definition rpct_find_if_member :: "rpct_context \<Rightarrow> string \<Rightarrow> string \<Rightarrow> rpct_if_member option" where
  "rpct_find_if_member ctx interface member =
     (case interfaces ctx interface of
        None \<Rightarrow> None
      | Some iface \<Rightarrow> if_members iface member)"

text \<open>
  Modelled from the spec: \<^verbatim>\<open>rpc_function_error_ex\<close> and the sending of the single response
  belong to the call engine, which is not among the sources. By the specification an error
  answers the call with an \<^verbatim>\<open>error\<close> frame, a single return with a \<^verbatim>\<open>response\<close> frame, and
  a second response to a call that has been answered is dropped.
\<close>

definition rpc_function_error_ex :: "'v rpc_inbound_call \<Rightarrow> 'v rpc_error \<Rightarrow> 'v rpc_inbound_call" where
  "rpc_function_error_ex ic exception =
     (if ric_responded ic then ic
      else ic\<lparr>ric_responded := True, ric_sent := ric_sent ic @ [Error_frame exception]\<rparr>)"

definition rpc_function_respond :: "'v rpc_inbound_call \<Rightarrow> 'v rpc_object \<Rightarrow> 'v rpc_inbound_call" where
  "rpc_function_respond ic result =
     (if ric_responded ic then ic
      else ic\<lparr>ric_responded := True, ric_sent := ric_sent ic @ [Response_frame result]\<rparr>)"

text \<open>
  \<^verbatim>\<open>rpct_pre_call_hook\<close> and \<^verbatim>\<open>rpct_post_call_hook\<close>. Both pass the address of a local
  \<^verbatim>\<open>errors\<close> to the validation; where the validation stores nothing the local is not read.
\<close>

definition rpct_pre_call_hook ::
  "'v class_handlers \<Rightarrow> rpct_context \<Rightarrow> 'v rpc_inbound_call \<Rightarrow> 'v rpc_object list
   \<Rightarrow> (fault + 'v rpc_inbound_call) option" where
  "rpct_pre_call_hook handlers ctx ic args =
     (case rpct_find_if_member ctx (ric_interface ic) (ric_name ic) of
        None \<Rightarrow> Some (Inr ic)
      | Some member \<Rightarrow>
          (case rpct_validate_args handlers (typeis ctx) member args True of
             None \<Rightarrow> None
           | Some (Inl f) \<Rightarrow> Some (Inl f)
           | Some (Inr (valid, errors)) \<Rightarrow>
               if \<not> valid then
                 (case errors of
                    None \<Rightarrow> Some (Inl Invalid_pointer)
                  | Some errs \<Rightarrow>
                      Some (Inr (rpc_function_error_ex ic
                        \<lparr>error_code = EINVAL,
                         error_message = ''Validation failed: '' @ fmt_jd (length errs) @ '' errors'',
                         error_extra = errs\<rparr>)))
               else Some (Inr ic)))"

definition rpct_post_call_hook ::
  "'v class_handlers \<Rightarrow> rpct_context \<Rightarrow> 'v rpc_inbound_call \<Rightarrow> 'v rpc_object
   \<Rightarrow> (fault + 'v rpc_inbound_call) option" where
  "rpct_post_call_hook handlers ctx ic result =
     (case rpct_find_if_member ctx (ric_interface ic) (ric_name ic) of
        None \<Rightarrow> Some (Inr ic)
      | Some member \<Rightarrow>
          (case rpct_validate_return handlers (typeis ctx) member result True of
             None \<Rightarrow> None
           | Some (Inl f) \<Rightarrow> Some (Inl f)
           | Some (Inr (valid, errors)) \<Rightarrow>
               if \<not> valid then
                 (case errors of
                    None \<Rightarrow> Some (Inl Invalid_pointer)
                  | Some errs \<Rightarrow>
                      Some (Inr (rpc_function_error_ex ic
                        \<lparr>error_code = EINVAL,
                         error_message = ''Return value validation failed'',
                         error_extra = errs\<rparr>)))
               else Some (Inr ic)))"

text \<open>
  Modelled from the spec: the worker of the context that serves an inbound call is not among
  the sources. By the specification (sections 4.3 and 4.4) it invokes the pre-call hook,
  the registered function and the post-call hook in this order, a call that the pre-call
  hook has answered with an error does not reach the registered function, and a single
  return is sent as the response. The second component of the result is what the
  registered function \<open>method\<close> returned, \<open>None\<close> when it was not invoked.
\<close>

definition rpc_context_serve_call ::
  "'v class_handlers \<Rightarrow> rpct_context \<Rightarrow> ('v rpc_object list \<Rightarrow> 'v rpc_object)
   \<Rightarrow> 'v rpc_inbound_call \<Rightarrow> 'v rpc_object list
   \<Rightarrow> (fault + 'v rpc_inbound_call \<times> 'v rpc_object option) option" where
  "rpc_context_serve_call handlers ctx method ic args =
     (case rpct_pre_call_hook handlers ctx ic args of
        None \<Rightarrow> None
      | Some (Inl f) \<Rightarrow> Some (Inl f)
      | Some (Inr ic1) \<Rightarrow>
          if ric_responded ic1 then Some (Inr (ic1, None))
          else
            (let result = method args in
             case rpct_post_call_hook handlers ctx ic1 result of
               None \<Rightarrow> None
             | Some (Inl f) \<Rightarrow> Some (Inl f)
             | Some (Inr ic2) \<Rightarrow> Some (Inr (rpc_function_respond ic2 result, Some result))))"

subsection \<open>Canonical form\<close>

text \<open>
  \<^verbatim>\<open>g_hash_table_iter_next\<close> visits the entries of a \<^verbatim>\<open>GHashTable\<close> in the order of the
  table's internal array, which the hash values of the keys decide, not the order of
  insertion. GLib is not part of the sources, so the order is a parameter: a function from
  the entries in insertion order to the entries in the order of iteration.
\<close>

type_synonym ghash_order = "(string \<times> typei_ptr) list \<Rightarrow> (string \<times> typei_ptr) list"

text \<open>
  The body of the \<^verbatim>\<open>while\<close> loop of \<^verbatim>\<open>rpct_canonical_type\<close> after the recursive call: append
  the substring (\<^verbatim>\<open>g_string_append\<close> ignores \<^verbatim>\<open>NULL\<close>), then a comma while
  \<^verbatim>\<open>i < size - 1\<close>, with \<open>table_size\<close> the size of the table.
\<close>

fun append_substrs :: "nat \<Rightarrow> nat \<Rightarrow> string option list \<Rightarrow> string \<Rightarrow> string" where
  "append_substrs i table_size [] ret = ret"
| "append_substrs i table_size (substr # rest) ret =
     append_substrs (Suc i) table_size rest
       (ret @ fmt_s_or_empty substr @ (if i < table_size - 1 then '','' else []))"

text \<open>The results of the recursive calls in order; the first that fails ends the loop.\<close>

fun collect_results :: "(fault + 'a) option list \<Rightarrow> (fault + 'a list) option" where
  "collect_results [] = Some (Inr [])"
| "collect_results (None # rest) = None"
| "collect_results (Some (Inl f) # rest) = Some (Inl f)"
| "collect_results (Some (Inr x) # rest) =
     (case collect_results rest of
        None \<Rightarrow> None
      | Some (Inl f) \<Rightarrow> Some (Inl f)
      | Some (Inr xs) \<Rightarrow> Some (Inr (x # xs)))"

text \<open>
  \<^verbatim>\<open>rpct_canonical_type\<close>, with a bound on the depth of the recursion. The result
  \<open>Inr None\<close> is the \<^verbatim>\<open>NULL\<close> that \<^verbatim>\<open>g_strdup\<close> returns for a proxy without a variable name.
\<close>

fun canonical_type_bounded ::
  "ghash_order \<Rightarrow> nat \<Rightarrow> rpct_typei list \<Rightarrow> typei_ptr \<Rightarrow> (fault + string option) option" where
  "canonical_type_bounded iter 0 h p = None"
| "canonical_type_bounded iter (Suc depth) h p =
     (case deref h p of
        Inl f \<Rightarrow> Some (Inl f)
      | Inr typei \<Rightarrow>
          if ti_proxy typei then Some (Inr (ti_variable typei))
          else
            (case ti_type typei of
               None \<Rightarrow> Some (Inl Null_dereference)
             | Some type \<Rightarrow>
                 if \<not> t_generic type then Some (Inr (Some (t_name type)))
                 else
                   (case collect_results
                           (map (\<lambda>entry. canonical_type_bounded iter depth h (snd entry))
                              (iter (ti_specializations typei))) of
                      None \<Rightarrow> None
                    | Some (Inl f) \<Rightarrow> Some (Inl f)
                    | Some (Inr substrs) \<Rightarrow>
                        Some (Inr (Some
                          (append_substrs 0 (length (ti_specializations typei)) substrs
                             (t_name type @ ''<'') @ ''>''))))))"

text \<open>
  A chain of distinct cells is no longer than the number of cells, so the recursion of the
  source exceeds the depth \<open>length h\<close> only when it runs through a cycle, and then it never
  returns: the bound \<open>Suc (length h)\<close> gives \<open>None\<close> exactly then.
\<close>

definition rpct_canonical_type ::
  "ghash_order \<Rightarrow> rpct_typei list \<Rightarrow> typei_ptr \<Rightarrow> (fault + string option) option" where
  "rpct_canonical_type iter h p = canonical_type_bounded iter (Suc (length h)) h p"

text \<open>
  The canonical form in the specification's words: the name, then the canonical forms of
  the specializations in the order in which the type declares its generic variables,
  joined by commas, in angle brackets.
\<close>

fun comma_joined :: "string list \<Rightarrow> string" where
  "comma_joined [] = []"
| "comma_joined [s] = s"
| "comma_joined (s # t # rest) = s @ '','' @ comma_joined (t # rest)"

definition canonical_form_spec :: "string \<Rightarrow> string list \<Rightarrow> (string \<rightharpoonup> string) \<Rightarrow> string" where
  "canonical_form_spec name generic_vars form_of =
     name @ ''<'' @ comma_joined (map (\<lambda>var. fmt_s_or_empty (form_of var)) generic_vars) @ ''>''"

subsection \<open>Instantiation\<close>

text \<open>
  \<^verbatim>\<open>rpct_parse_type\<close>: the loop over the characters of the declaration. \<open>cur\<close> holds the
  characters from \<^verbatim>\<open>istart\<close> to the current index, so that \<^verbatim>\<open>g_strndup(&decl[istart],
  i - istart)\<close> is \<open>cur\<close>. The function returns the number of groups and the substrings
  added to \<^verbatim>\<open>variables\<close>.
\<close>

fun parse_type_loop :: "string \<Rightarrow> int \<Rightarrow> string \<Rightarrow> nat \<times> string list \<Rightarrow> nat \<times> string list" where
  "parse_type_loop [] nesting cur (groups, variables) = (Suc groups, variables @ [cur])"
| "parse_type_loop (c # rest) nesting cur (groups, variables) =
     (if c = CHR ''<'' then parse_type_loop rest (nesting + 1) (cur @ [c]) (groups, variables)
      else if c = CHR ''>'' then parse_type_loop rest (nesting - 1) (cur @ [c]) (groups, variables)
      else if c = CHR '','' then
        (if nesting = 0 then parse_type_loop rest nesting [] (Suc groups, variables @ [cur])
         else parse_type_loop rest nesting (cur @ [c]) (groups, variables))
      else parse_type_loop rest nesting (cur @ [c]) (groups, variables))"

definition rpct_parse_type :: "string \<Rightarrow> nat \<times> string list" where
  "rpct_parse_type decl = parse_type_loop decl 0 [] (0, [])"

text \<open>
  \<^verbatim>\<open>g_hash_table_insert\<close> on a table with string keys: the value of a key that is present
  is replaced, a new key is added.
\<close>

fun g_hash_table_insert :: "(string \<times> 'a) list \<Rightarrow> string \<Rightarrow> 'a \<Rightarrow> (string \<times> 'a) list" where
  "g_hash_table_insert [] key value = [(key, value)]"
| "g_hash_table_insert (entry # rest) key value =
     (if fst entry = key then (key, value) # rest
      else entry # g_hash_table_insert rest key value)"

text \<open>
  The first loop of \<^verbatim>\<open>rpct_instantiate_type\<close>, for a name that is no type: walk the
  instances from \<^verbatim>\<open>parent\<close> upwards and look the name up among the specializations of the
  generic ones.
\<close>

partial_function (option) find_type_variable ::
  "rpct_typei list \<Rightarrow> typei_ptr option \<Rightarrow> string \<Rightarrow> (fault + typei_ptr option) option" where
  "find_type_variable h cur decltype =
     (case cur of
        None \<Rightarrow> Some (Inr None)
      | Some p \<Rightarrow>
          (case deref h p of
             Inl f \<Rightarrow> Some (Inl f)
           | Inr c \<Rightarrow>
               (case ti_type c of
                  None \<Rightarrow> Some (Inl Null_dereference)
                | Some type \<Rightarrow>
                    (case (if t_generic type then map_of (ti_specializations c) decltype
                           else None) of
                       Some subtype \<Rightarrow> Some (Inr (Some subtype))
                     | None \<Rightarrow> find_type_variable h (ti_parent c) decltype))))"

text \<open>\<^verbatim>\<open>g_malloc0\<close> of a type instance: the new cell is appended, its index is the pointer.\<close>

definition alloc_typei :: "rpct_context \<Rightarrow> rpct_typei \<Rightarrow> typei_ptr \<times> rpct_context" where
  "alloc_typei ctx cell = (length (typeis ctx), ctx\<lparr>typeis := typeis ctx @ [cell]\<rparr>)"

text \<open>\<^verbatim>\<open>rpct_typei_retain\<close> increments the reference count of the cell.\<close>

definition rpct_typei_retain :: "rpct_typei list \<Rightarrow> typei_ptr \<Rightarrow> fault + rpct_typei list" where
  "rpct_typei_retain h typei =
     (case deref h typei of
        Inl f \<Rightarrow> Inl f
      | Inr cell \<Rightarrow> Inr (h[typei := cell\<lparr>ti_refcnt := ti_refcnt cell + 1\<rparr>]))"

text \<open>
  \<^verbatim>\<open>rpct_typei_release\<close> decrements the reference count and returns unless the count has
  become zero; then it destroys the table of the specializations, which releases each
  value in the order of the table, and frees the cell. \<open>release_values\<close> is the destruction
  of the table. The first argument after the order bounds the nesting of the calls.
\<close>

fun typei_release_bounded ::
  "ghash_order \<Rightarrow> nat \<Rightarrow> rpct_typei list \<Rightarrow> typei_ptr \<Rightarrow> (fault + rpct_typei list) option"
and release_values ::
  "ghash_order \<Rightarrow> nat \<Rightarrow> rpct_typei list \<Rightarrow> typei_ptr list \<Rightarrow> (fault + rpct_typei list) option"
where
  "typei_release_bounded iter 0 h typei = None"
| "typei_release_bounded iter (Suc depth) h typei =
     (case deref h typei of
        Inl f \<Rightarrow> Some (Inl f)
      | Inr cell \<Rightarrow>
          (let h1 = h[typei := cell\<lparr>ti_refcnt := ti_refcnt cell - 1\<rparr>] in
           if ti_refcnt cell - 1 \<noteq> 0 then Some (Inr h1)
           else
             (case release_values iter depth h1 (map snd (iter (ti_specializations cell))) of
                None \<Rightarrow> None
              | Some (Inl f) \<Rightarrow> Some (Inl f)
              | Some (Inr h2) \<Rightarrow> Some (Inr (h2[typei := (h2 ! typei)\<lparr>ti_freed := True\<rparr>])))))"
| "release_values iter depth h [] = Some (Inr h)"
| "release_values iter depth h (value # rest) =
     (case typei_release_bounded iter depth h value of
        None \<Rightarrow> None
      | Some (Inl f) \<Rightarrow> Some (Inl f)
      | Some (Inr h') \<Rightarrow> release_values iter depth h' rest)"

text \<open>
  A release goes into the table of a cell only when the count of the cell becomes zero,
  which happens at most once for a cell while counts only fall. So the calls nest no deeper
  than the number of cells, and the bound \<open>Suc (length h)\<close> is never reached.
\<close>

definition rpct_typei_release ::
  "ghash_order \<Rightarrow> rpct_typei list \<Rightarrow> typei_ptr \<Rightarrow> (fault + rpct_typei list) option" where
  "rpct_typei_release iter h typei = typei_release_bounded iter (Suc (length h)) h typei"

text \<open>
  \<^verbatim>\<open>g_hash_table_insert\<close> on a table made with \<^verbatim>\<open>rpct_typei_release\<close> as the function that
  destroys values: the value that the key had before, if any, is released after the new
  value is in place. The argument \<open>old\<close> is that value.
\<close>

definition release_replaced ::
  "ghash_order \<Rightarrow> typei_ptr option \<Rightarrow> rpct_typei list \<Rightarrow> (fault + rpct_typei list) option" where
  "release_replaced iter old h =
     (case old of
        None \<Rightarrow> Some (Inr h)
      | Some value \<Rightarrow> rpct_typei_release iter h value)"

text \<open>
  The label \<^verbatim>\<open>error\<close> of \<^verbatim>\<open>rpct_instantiate_type\<close> once \<^verbatim>\<open>ret\<close> is allocated: release
  \<^verbatim>\<open>ret\<close> and return \<^verbatim>\<open>NULL\<close>.
\<close>

definition instantiate_error ::
  "ghash_order \<Rightarrow> typei_ptr \<Rightarrow> rpct_context \<Rightarrow> (fault + typei_ptr option \<times> rpct_context) option" where
  "instantiate_error iter ret ctx =
     (case rpct_typei_release iter (typeis ctx) ret of
        None \<Rightarrow> None
      | Some (Inl f) \<Rightarrow> Some (Inl f)
      | Some (Inr h) \<Rightarrow> Some (Inr (None, ctx\<lparr>typeis := h\<rparr>)))"

text \<open>
  The end of \<^verbatim>\<open>rpct_instantiate_type\<close> on success: set the canonical form, and at the label
  \<^verbatim>\<open>done\<close> enter a non-generic instance into the cache under its canonical form; the
  instance that the cache held under that key is released.
\<close>

definition instantiate_finish ::
  "ghash_order \<Rightarrow> rpct_type \<Rightarrow> typei_ptr \<Rightarrow> rpct_context
   \<Rightarrow> (fault + typei_ptr option \<times> rpct_context) option" where
  "instantiate_finish iter type ret ctx =
     (case rpct_canonical_type iter (typeis ctx) ret of
        None \<Rightarrow> None
      | Some (Inl f) \<Rightarrow> Some (Inl f)
      | Some (Inr form) \<Rightarrow>
          (let h = (typeis ctx)[ret := (typeis ctx ! ret)\<lparr>ti_canonical_form := form\<rparr>]
           in if \<not> t_generic type then
                (case form of
                   None \<Rightarrow> Some (Inl Null_dereference)
                 | Some key \<Rightarrow>
                     (case release_replaced iter (typei_cache ctx key) h of
                        None \<Rightarrow> None
                      | Some (Inl f) \<Rightarrow> Some (Inl f)
                      | Some (Inr h') \<Rightarrow>
                          Some (Inr (Some ret,
                            ctx\<lparr>typei_cache := (typei_cache ctx)(key \<mapsto> ret), typeis := h'\<rparr>))))
              else Some (Inr (Some ret, ctx\<lparr>typeis := h\<rparr>))))"

text \<open>
  The insertion of an instantiated variable into the table of \<^verbatim>\<open>ret\<close>, in the \<^verbatim>\<open>for\<close> loop
  of \<^verbatim>\<open>rpct_instantiate_type\<close>.
\<close>

definition insert_specialization ::
  "ghash_order \<Rightarrow> typei_ptr \<Rightarrow> string \<Rightarrow> typei_ptr \<Rightarrow> rpct_typei list
   \<Rightarrow> (fault + rpct_typei list) option" where
  "insert_specialization iter ret var subtype h =
     (case deref h ret of
        Inl f \<Rightarrow> Some (Inl f)
      | Inr cell \<Rightarrow>
          release_replaced iter (map_of (ti_specializations cell) var)
            (h[ret := cell\<lparr>ti_specializations :=
                 g_hash_table_insert (ti_specializations cell) var subtype\<rparr>]))"

text \<open>
  \<^verbatim>\<open>rpct_instantiate_type(decl, parent, ptype, origin)\<close>. The parameter \<open>instance_regex\<close> is
  the match of \<^verbatim>\<open>INSTANCE_REGEX\<close>, a macro that is not among the sources: \<open>None\<close> when the
  declaration does not match, else group 1 (the name) and group 3 (the text between the
  angle brackets, \<^verbatim>\<open>NULL\<close> when the group did not take part). The first argument after the
  parameters bounds the nesting depth of the recursion; with \<open>None\<close> the bound was too small
  or the function does not return. The result \<open>Inr (None, ctx)\<close> is the \<^verbatim>\<open>NULL\<close> of the
  error path. \<open>instantiate_vars\<close> is the \<^verbatim>\<open>for\<close> loop over the generic variables; its result
  says whether every variable was instantiated. A proxy comes from \<^verbatim>\<open>g_malloc0\<close> alone and
  has the reference count 0; a realized instance starts with the count 1; an instance
  found in the cache is retained; an instance found among the specializations of a parent
  is returned as it is.
\<close>

type_synonym lexer = "string \<Rightarrow> (string \<times> string option) option"

fun rpct_instantiate_type ::
  "lexer \<Rightarrow> loader \<Rightarrow> ghash_order \<Rightarrow> nat \<Rightarrow> string \<Rightarrow> typei_ptr option \<Rightarrow> rpct_type option
   \<Rightarrow> rpct_file option \<Rightarrow> rpct_context \<Rightarrow> (fault + typei_ptr option \<times> rpct_context) option"
and instantiate_vars ::
  "lexer \<Rightarrow> loader \<Rightarrow> ghash_order \<Rightarrow> nat \<Rightarrow> (string \<times> string) list \<Rightarrow> typei_ptr
   \<Rightarrow> rpct_type option \<Rightarrow> rpct_file option \<Rightarrow> rpct_context
   \<Rightarrow> (fault + bool \<times> rpct_context) option" where
  "rpct_instantiate_type instance_regex chain_load iter 0 decl parent ptype origin ctx = None"
| "rpct_instantiate_type instance_regex chain_load iter (Suc depth) decl parent ptype origin ctx =
     (case instance_regex decl of
        None \<Rightarrow> Some (Inr (None, ctx))
      | Some (decltype, declvars) \<Rightarrow>
          (case rpct_find_type_fuzzy chain_load decltype origin ctx of
             (None, ctx1) \<Rightarrow>
               (case find_type_variable (typeis ctx1) parent decltype of
                  None \<Rightarrow> None
                | Some (Inl f) \<Rightarrow> Some (Inl f)
                | Some (Inr (Some subtype)) \<Rightarrow> Some (Inr (Some subtype, ctx1))
                | Some (Inr None) \<Rightarrow>
                    (case ptype of
                       None \<Rightarrow> Some (Inr (None, ctx1))
                     | Some pt \<Rightarrow>
                         if t_generic pt \<and> decltype \<in> set (t_generic_vars pt) then
                           (case alloc_typei ctx1
                                   \<lparr>ti_proxy = True, ti_type = None, ti_variable = Some decltype,
                                    ti_canonical_form = Some decltype, ti_specializations = [],
                                    ti_parent = None, ti_refcnt = 0, ti_freed = False\<rparr> of
                              (subtype, ctx2) \<Rightarrow> Some (Inr (Some subtype, ctx2)))
                         else Some (Inr (None, ctx1))))
           | (Some type, ctx1) \<Rightarrow>
               (case (if \<not> t_generic type then typei_cache ctx1 decltype else None) of
                  Some ret \<Rightarrow>
                    (case rpct_typei_retain (typeis ctx1) ret of
                       Inl f \<Rightarrow> Some (Inl f)
                     | Inr h \<Rightarrow> Some (Inr (Some ret, ctx1\<lparr>typeis := h\<rparr>)))
                | None \<Rightarrow>
                    (case alloc_typei ctx1
                            \<lparr>ti_proxy = False, ti_type = Some type, ti_variable = None,
                             ti_canonical_form = None, ti_specializations = [],
                             ti_parent = parent, ti_refcnt = 1, ti_freed = False\<rparr> of
                       (ret, ctx2) \<Rightarrow>
                         if t_generic type then
                           (case declvars of
                              None \<Rightarrow> instantiate_error iter ret ctx2
                            | Some vars \<Rightarrow>
                                (let splitvars = snd (rpct_parse_type vars) in
                                 if length splitvars \<noteq> length (t_generic_vars type)
                                 then instantiate_error iter ret ctx2
                                 else
                                   (case instantiate_vars instance_regex chain_load iter depth
                                           (zip (t_generic_vars type) splitvars)
                                           ret ptype origin ctx2 of
                                      None \<Rightarrow> None
                                    | Some (Inl f) \<Rightarrow> Some (Inl f)
                                    | Some (Inr (False, ctx3)) \<Rightarrow> instantiate_error iter ret ctx3
                                    | Some (Inr (True, ctx3)) \<Rightarrow>
                                        instantiate_finish iter type ret ctx3)))
                         else instantiate_finish iter type ret ctx2))))"
| "instantiate_vars instance_regex chain_load iter depth [] ret ptype origin ctx =
     Some (Inr (True, ctx))"
| "instantiate_vars instance_regex chain_load iter depth ((var, vartype) # rest) ret ptype origin
     ctx =
     (case rpct_instantiate_type instance_regex chain_load iter depth vartype (Some ret) ptype
             origin ctx of
        None \<Rightarrow> None
      | Some (Inl f) \<Rightarrow> Some (Inl f)
      | Some (Inr (None, ctx1)) \<Rightarrow> Some (Inr (False, ctx1))
      | Some (Inr (Some subtype, ctx1)) \<Rightarrow>
          (case insert_specialization iter ret var subtype (typeis ctx1) of
             None \<Rightarrow> None
           | Some (Inl f) \<Rightarrow> Some (Inl f)
           | Some (Inr h) \<Rightarrow>
               instantiate_vars instance_regex chain_load iter depth rest ret ptype origin
                 (ctx1\<lparr>typeis := h\<rparr>)))"

section \<open>Theorems\<close>

subsection \<open>Index accessors\<close>

lemma get_generic_var_rejected:
  "sint index < 0 \<or> sint index > sint (word_of_nat (length (t_generic_vars type)) :: 32 word)
   \<Longrightarrow> rpct_type_get_generic_var type index = Inr None"
  by (simp add: rpct_type_get_generic_var_def)

text \<open>
  C9. The claim: for an index that is negative or not less than the number of generic
  variables, \<^verbatim>\<open>rpct_type_get_generic_var\<close> returns \<^verbatim>\<open>NULL\<close>, and \<^verbatim>\<open>rpct_method_get_argument\<close>
  likewise for an index outside the argument list. The guard of both functions is
  \<^verbatim>\<open>index > len\<close>, so the index equal to the length passes it: for a type with the one
  generic variable \<open>T\<close> and for a method with one argument, index 1 is not answered with
  \<^verbatim>\<open>NULL\<close> but read from one past the end of the array.
\<close>

theorem get_generic_var_at_length_reads_past_end:
  "rpct_type_get_generic_var
     (Rpct_type ''Box'' None RPC_TYPING_STRUCT True [''T''] None) 1 = Inl Out_of_bounds_read
   \<and> rpct_method_get_argument
       \<lparr>rim_name = ''add'', rim_type = RPC_MEMBER_METHOD, rim_description = None,
        rim_arguments = Some [\<lparr>arg_name = ''a'', arg_description = None, arg_type = 0\<rparr>],
        rim_result = None\<rparr> 1 = Inl Out_of_bounds_read"
  by (simp add: rpct_type_get_generic_var_def rpct_method_get_argument_def g_ptr_array_index_def)

subsection \<open>Fuzzy name resolution\<close>

lemma find_type_in_uses_first_found:
  "find_type_in_uses chain_load name pfxs ctx =
   first_found chain_load (map (\<lambda>pfx. full_name pfx name) pfxs) ctx"
  by (induction pfxs arbitrary: ctx) (auto split: prod.splits option.splits)

text \<open>
  C6. Fuzzy resolution of a name in a file tries the name verbatim, then the file's
  namespace prefixed to the name, then each entry of the file's use list prefixed to the
  name, and returns the first type found, or not-found when no candidate matches. Without
  a file of origin the name verbatim is the only candidate.
\<close>

theorem rpct_find_type_fuzzy_order:
  "rpct_find_type_fuzzy chain_load name (Some file) ctx
   = first_found chain_load (fuzzy_candidates name file) ctx
   \<and> rpct_find_type_fuzzy chain_load name None ctx = first_found chain_load [name] ctx"
  by (cases "ns file")
    (auto simp: rpct_find_type_fuzzy_def fuzzy_candidates_def find_type_in_uses_first_found
          split: prod.splits option.splits)

subsection \<open>Closing a server\<close>

lemma remove_connection_keeps_closed:
  "rs_closed (snd (rpc_server_remove_connection server conn)) = rs_closed server"
  by (simp add: rpc_server_remove_connection_def)

lemma wait_for_drain_keeps_closed:
  "rs_closed (snd (wait_for_drain server terminated)) = rs_closed server"
  by (induction server terminated rule: wait_for_drain.induct)
     (simp_all add: remove_connection_keeps_closed)

lemma accept_each_closed:
  "rs_closed server \<Longrightarrow>
   rpc_server_accept_each self conns (server, context)
     = (replicate (length conns) (- 1), server, context)"
  by (induction conns) (simp_all add: rpc_server_accept_def)

lemma close_absent:
  "self \<notin> set (rcx_servers context) \<Longrightarrow>
   rpc_server_close self terminated (server, context) = (Some (- 1), server, context)"
  by (simp add: rpc_server_close_def remove1_idem)

lemma close_present:
  assumes "self \<in> set (rcx_servers context)"
    and "rpc_server_close self terminated (server, context) = (ret, server', context')"
  shows "rcx_servers context' = remove1 self (rcx_servers context)"
    and "rs_closed server'"
proof -
  let ?s1 = "server\<lparr>rs_closed := True\<rparr>"
  have closed: "rs_closed (snd (wait_for_drain ?s1 terminated))"
    by (simp add: wait_for_drain_keeps_closed)
  show "rcx_servers context' = remove1 self (rcx_servers context)"
    using assms by (auto simp: rpc_server_close_def Let_def split: if_splits prod.splits bool.splits)
  show "rs_closed server'"
    using assms closed
    by (auto simp: rpc_server_close_def Let_def split: if_splits prod.splits bool.splits)
qed

text \<open>
  C8. \<^verbatim>\<open>rpc_server_close\<close> removes the server from the context's server list and returns
  -1 when the server is absent from it (the state is then unchanged); otherwise it sets
  the closed flag, and in the state it leaves every subsequent accept on that server
  returns -1 and adds no connection (and hands nothing to the context).
\<close>

theorem rpc_server_close_refuses_accepts:
  "(self \<notin> set (rcx_servers context) \<longrightarrow>
      rpc_server_close self terminated (server, context) = (Some (- 1), server, context))
   \<and> (self \<in> set (rcx_servers context) \<longrightarrow>
      (case rpc_server_close self terminated (server, context) of
         (ret, server', context') \<Rightarrow>
           rcx_servers context' = remove1 self (rcx_servers context)
           \<and> rs_closed server'
           \<and> (\<forall>conns c. rpc_server_accept_each self conns (server', c)
                 = (replicate (length conns) (- 1), server', c))))"
proof (intro conjI impI)
  assume "self \<notin> set (rcx_servers context)"
  then show "rpc_server_close self terminated (server, context) = (Some (- 1), server, context)"
    by (rule close_absent)
next
  assume present: "self \<in> set (rcx_servers context)"
  obtain ret server' context' where
    c: "rpc_server_close self terminated (server, context) = (ret, server', context')"
    by (cases "rpc_server_close self terminated (server, context)") auto
  from close_present[OF present c] accept_each_closed
  show "case rpc_server_close self terminated (server, context) of
         (ret, server', context') \<Rightarrow>
           rcx_servers context' = remove1 self (rcx_servers context)
           \<and> rs_closed server'
           \<and> (\<forall>conns c. rpc_server_accept_each self conns (server', c)
                 = (replicate (length conns) (- 1), server', c))"
    by (simp add: c)
qed

theorem rpc_server_close_refuses_accepts_witness:
  "rpc_server_close 7 [4, 5] (\<lparr>rs_closed = False, rs_connections = [5, 4], rs_teardown = None\<rparr>,
       \<lparr>rcx_servers = [7], rcx_dispatched = []\<rparr>)
     = (Some 0, \<lparr>rs_closed = True, rs_connections = [], rs_teardown = None\<rparr>,
        \<lparr>rcx_servers = [], rcx_dispatched = []\<rparr>)
   \<and> rpc_server_accept_each 7 [1, 2]
        (\<lparr>rs_closed = True, rs_connections = [], rs_teardown = None\<rparr>,
         \<lparr>rcx_servers = [], rcx_dispatched = []\<rparr>)
     = ([- 1, - 1], \<lparr>rs_closed = True, rs_connections = [], rs_teardown = None\<rparr>,
        \<lparr>rcx_servers = [], rcx_dispatched = []\<rparr>)
   \<and> rpc_server_close 8 [] (\<lparr>rs_closed = False, rs_connections = [5], rs_teardown = None\<rparr>,
       \<lparr>rcx_servers = [7], rcx_dispatched = []\<rparr>)
     = (Some (- 1), \<lparr>rs_closed = False, rs_connections = [5], rs_teardown = None\<rparr>,
        \<lparr>rcx_servers = [7], rcx_dispatched = []\<rparr>)"
proof -
  have close: "rpc_server_close 7 [4, 5]
      (\<lparr>rs_closed = False, rs_connections = [5, 4], rs_teardown = None\<rparr>,
       \<lparr>rcx_servers = [7], rcx_dispatched = []\<rparr>)
     = (Some 0, \<lparr>rs_closed = True, rs_connections = [], rs_teardown = None\<rparr>,
        \<lparr>rcx_servers = [], rcx_dispatched = []\<rparr>)"
    by (simp add: rpc_server_close_def rpc_server_remove_connection_def)
  from rpc_server_close_refuses_accepts
         [of 7 "\<lparr>rcx_servers = [7], rcx_dispatched = []\<rparr>" "[4, 5]"
             "\<lparr>rs_closed = False, rs_connections = [5, 4], rs_teardown = None\<rparr>"]
  have all: "\<forall>conns c. rpc_server_accept_each 7 conns
        (\<lparr>rs_closed = True, rs_connections = [], rs_teardown = None\<rparr>, c)
     = (replicate (length conns) (- 1),
        \<lparr>rs_closed = True, rs_connections = [], rs_teardown = None\<rparr>, c)"
    unfolding close by simp
  have two: "replicate (length [1::nat, 2]) (- 1 :: int) = [- 1, - 1]"
    by simp
  have "rpc_server_accept_each 7 [1, 2]
        (\<lparr>rs_closed = True, rs_connections = [], rs_teardown = None\<rparr>,
         \<lparr>rcx_servers = [], rcx_dispatched = []\<rparr>)
     = ([- 1, - 1],
        \<lparr>rs_closed = True, rs_connections = [], rs_teardown = None\<rparr>,
        \<lparr>rcx_servers = [], rcx_dispatched = []\<rparr>)"
    using all[rule_format, of "[1, 2]" "\<lparr>rcx_servers = [], rcx_dispatched = []\<rparr>"]
    unfolding two .
  moreover
  from rpc_server_close_refuses_accepts
         [of 8 "\<lparr>rcx_servers = [7], rcx_dispatched = []\<rparr>" "[]"
             "\<lparr>rs_closed = False, rs_connections = [5], rs_teardown = None\<rparr>"]
  have "rpc_server_close 8 [] (\<lparr>rs_closed = False, rs_connections = [5], rs_teardown = None\<rparr>,
       \<lparr>rcx_servers = [7], rcx_dispatched = []\<rparr>)
     = (Some (- 1), \<lparr>rs_closed = False, rs_connections = [5], rs_teardown = None\<rparr>,
        \<lparr>rcx_servers = [7], rcx_dispatched = []\<rparr>)"
    by simp
  ultimately show ?thesis using close by simp
qed

subsection \<open>Compatibility\<close>

text \<open>
  C1, as the specification states it, fails on the guard on the numbers of specializations,
  which the source writes the other way round (\<^verbatim>\<open>size(decl) < size(type)\<close>): a declared
  non-generic \<open>Base\<close> against an instance \<open>Derived<int64>\<close> whose type inherits from
  \<open>Base\<close>. The declaration does not have more specializations than the instance and the
  parent chain of \<open>Derived\<close> reaches \<open>Base\<close>, so the specification says compatible; the
  source returns false at the guard.
\<close>

theorem rpct_type_is_compatible_counterexample:
  "rpct_type_is_compatible
     \<lparr>ti_proxy = False,
      ti_type = Some (Rpct_type ''Base'' None RPC_TYPING_STRUCT False [] None),
      ti_variable = None, ti_canonical_form = Some ''Base'',
      ti_specializations = [], ti_parent = None,
       ti_refcnt = 1, ti_freed = False\<rparr>
     \<lparr>ti_proxy = False,
      ti_type = Some (Rpct_type ''Derived''
                  (Some (Rpct_type ''Base'' None RPC_TYPING_STRUCT False [] None))
                  RPC_TYPING_STRUCT True [''T''] None),
      ti_variable = None, ti_canonical_form = Some ''Derived<int64>'',
      ti_specializations = [(''T'', 0)], ti_parent = None,
       ti_refcnt = 1, ti_freed = False\<rparr>
   = Inr False
   \<and> is_compatible_spec
       (Rpct_type ''Base'' None RPC_TYPING_STRUCT False [] None) (length ([] :: (string \<times> typei_ptr) list))
       (Rpct_type ''Derived''
          (Some (Rpct_type ''Base'' None RPC_TYPING_STRUCT False [] None))
          RPC_TYPING_STRUCT True [''T''] None) (length [(''T'', 0 :: typei_ptr)])"
  by (simp add: rpct_type_is_compatible_def is_compatible_spec_def)

text \<open>
  C1, amended. For realized instances \<^verbatim>\<open>rpct_type_is_compatible(decl, type)\<close> returns true
  if the name of the type of \<open>decl\<close> is \<open>any\<close>; otherwise false if \<open>decl\<close> has fewer
  specializations bound than \<open>type\<close>; otherwise true if the two type names are equal.
\<close>

theorem rpct_type_is_compatible_amended:
  assumes "ti_type decl = Some decl_type" and "ti_type type = Some type_type"
  shows "(t_name decl_type = ''any'' \<longrightarrow> rpct_type_is_compatible decl type = Inr True)
       \<and> (t_name decl_type \<noteq> ''any''
            \<and> length (ti_specializations decl) < length (ti_specializations type)
          \<longrightarrow> rpct_type_is_compatible decl type = Inr False)
       \<and> (t_name decl_type \<noteq> ''any''
            \<and> length (ti_specializations decl) \<ge> length (ti_specializations type)
            \<and> t_name decl_type = t_name type_type
          \<longrightarrow> rpct_type_is_compatible decl type = Inr True)"
  using assms by (simp add: rpct_type_is_compatible_def)

theorem rpct_type_is_compatible_amended_witness:
  "rpct_type_is_compatible
     \<lparr>ti_proxy = False,
      ti_type = Some (Rpct_type ''any'' None RPC_TYPING_BUILTIN False [] None),
      ti_variable = None, ti_canonical_form = Some ''any'',
      ti_specializations = [], ti_parent = None,
       ti_refcnt = 1, ti_freed = False\<rparr>
     \<lparr>ti_proxy = False,
      ti_type = Some (Rpct_type ''Box'' None RPC_TYPING_STRUCT True [''T''] None),
      ti_variable = None, ti_canonical_form = Some ''Box<int64>'',
      ti_specializations = [(''T'', 0)], ti_parent = None,
       ti_refcnt = 1, ti_freed = False\<rparr> = Inr True
   \<and> rpct_type_is_compatible
     \<lparr>ti_proxy = False,
      ti_type = Some (Rpct_type ''int64'' None RPC_TYPING_BUILTIN False [] None),
      ti_variable = None, ti_canonical_form = Some ''int64'',
      ti_specializations = [], ti_parent = None,
       ti_refcnt = 1, ti_freed = False\<rparr>
     \<lparr>ti_proxy = False,
      ti_type = Some (Rpct_type ''Box'' None RPC_TYPING_STRUCT True [''T''] None),
      ti_variable = None, ti_canonical_form = Some ''Box<int64>'',
      ti_specializations = [(''T'', 0)], ti_parent = None,
       ti_refcnt = 1, ti_freed = False\<rparr> = Inr False
   \<and> rpct_type_is_compatible
     \<lparr>ti_proxy = False,
      ti_type = Some (Rpct_type ''Box'' None RPC_TYPING_STRUCT True [''T''] None),
      ti_variable = None, ti_canonical_form = Some ''Box<string>'',
      ti_specializations = [(''T'', 1)], ti_parent = None,
       ti_refcnt = 1, ti_freed = False\<rparr>
     \<lparr>ti_proxy = False,
      ti_type = Some (Rpct_type ''Box'' None RPC_TYPING_STRUCT True [''T''] None),
      ti_variable = None, ti_canonical_form = Some ''Box<int64>'',
      ti_specializations = [(''T'', 0)], ti_parent = None,
       ti_refcnt = 1, ti_freed = False\<rparr> = Inr True"
proof -
  let ?box = "Rpct_type ''Box'' None RPC_TYPING_STRUCT True [''T''] None"
  let ?type = "\<lparr>ti_proxy = False, ti_type = Some ?box,
      ti_variable = None, ti_canonical_form = Some ''Box<int64>'',
      ti_specializations = [(''T'', 0 :: typei_ptr)], ti_parent = None,
       ti_refcnt = 1, ti_freed = False\<rparr>"
  let ?any = "Rpct_type ''any'' None RPC_TYPING_BUILTIN False [] None"
  let ?int64 = "Rpct_type ''int64'' None RPC_TYPING_BUILTIN False [] None"
  have a: "rpct_type_is_compatible
     \<lparr>ti_proxy = False, ti_type = Some ?any,
      ti_variable = None, ti_canonical_form = Some ''any'',
      ti_specializations = [], ti_parent = None,
       ti_refcnt = 1, ti_freed = False\<rparr> ?type = Inr True"
    using rpct_type_is_compatible_amended
            [of "\<lparr>ti_proxy = False, ti_type = Some ?any,
                  ti_variable = None, ti_canonical_form = Some ''any'',
                  ti_specializations = [], ti_parent = None,
       ti_refcnt = 1, ti_freed = False\<rparr>" ?any ?type ?box]
    by simp
  have b: "rpct_type_is_compatible
     \<lparr>ti_proxy = False, ti_type = Some ?int64,
      ti_variable = None, ti_canonical_form = Some ''int64'',
      ti_specializations = [], ti_parent = None,
       ti_refcnt = 1, ti_freed = False\<rparr> ?type = Inr False"
    using rpct_type_is_compatible_amended
            [of "\<lparr>ti_proxy = False, ti_type = Some ?int64,
                  ti_variable = None, ti_canonical_form = Some ''int64'',
                  ti_specializations = [], ti_parent = None,
       ti_refcnt = 1, ti_freed = False\<rparr>" ?int64 ?type ?box]
    by simp
  have c: "rpct_type_is_compatible
     \<lparr>ti_proxy = False, ti_type = Some ?box,
      ti_variable = None, ti_canonical_form = Some ''Box<string>'',
      ti_specializations = [(''T'', 1)], ti_parent = None,
       ti_refcnt = 1, ti_freed = False\<rparr> ?type = Inr True"
    using rpct_type_is_compatible_amended
            [of "\<lparr>ti_proxy = False, ti_type = Some ?box,
                  ti_variable = None, ti_canonical_form = Some ''Box<string>'',
                  ti_specializations = [(''T'', 1)], ti_parent = None,
       ti_refcnt = 1, ti_freed = False\<rparr>" ?box ?type ?box]
    by simp
  from a b c show ?thesis by simp
qed

subsection \<open>Unwinding\<close>

lemma unwind_result_aux:
  assumes "rpct_unwind_typei h current = Some y"
  shows "\<forall>raw. y = Inr (Some raw) \<longrightarrow>
      raw < length h \<and> \<not> ti_freed (h ! raw)
      \<and> (\<exists>type. ti_type (h ! raw) = Some type \<and> t_clazz type \<noteq> RPC_TYPING_TYPEDEF)"
proof (rule rpct_unwind_typei.raw_induct[OF _ assms])
  fix unwind h current y
  assume "\<And>h current y. unwind h current = Some y \<Longrightarrow>
            \<forall>raw. y = Inr (Some raw) \<longrightarrow>
              raw < length h \<and> \<not> ti_freed (h ! raw)
              \<and> (\<exists>type. ti_type (h ! raw) = Some type \<and> t_clazz type \<noteq> RPC_TYPING_TYPEDEF)"
    and "(case current of
            None \<Rightarrow> Some (Inr None)
          | Some p \<Rightarrow>
              (case deref h p of
                 Inl f \<Rightarrow> Some (Inl f)
               | Inr cur \<Rightarrow>
                   (case ti_type cur of
                      None \<Rightarrow> Some (Inl Null_dereference)
                    | Some type \<Rightarrow>
                        if t_clazz type = RPC_TYPING_TYPEDEF
                        then unwind h (t_definition type)
                        else Some (Inr (Some p))))) = Some y"
  then show "\<forall>raw. y = Inr (Some raw) \<longrightarrow>
      raw < length h \<and> \<not> ti_freed (h ! raw)
      \<and> (\<exists>type. ti_type (h ! raw) = Some type \<and> t_clazz type \<noteq> RPC_TYPING_TYPEDEF)"
    by (auto simp: deref_def split: option.splits sum.splits if_splits)
qed

lemma unwind_result:
  "rpct_unwind_typei h current = Some (Inr (Some raw)) \<Longrightarrow>
   raw < length h \<and> \<not> ti_freed (h ! raw)
   \<and> (\<exists>type. ti_type (h ! raw) = Some type \<and> t_clazz type \<noteq> RPC_TYPING_TYPEDEF)"
  using unwind_result_aux by blast

lemma unwind_non_typedef:
  "p < length h \<Longrightarrow> \<not> ti_freed (h ! p) \<Longrightarrow> ti_type (h ! p) = Some type \<Longrightarrow> t_clazz type \<noteq> RPC_TYPING_TYPEDEF \<Longrightarrow>
   rpct_unwind_typei h (Some p) = Some (Inr (Some p))"
  by (subst rpct_unwind_typei.simps) (simp add: deref_def)

lemma unwind_typedef:
  "p < length h \<Longrightarrow> \<not> ti_freed (h ! p) \<Longrightarrow> ti_type (h ! p) = Some type \<Longrightarrow> t_clazz type = RPC_TYPING_TYPEDEF \<Longrightarrow>
   rpct_unwind_typei h (Some p) = rpct_unwind_typei h (t_definition type)"
  by (subst rpct_unwind_typei.simps) (simp add: deref_def)

lemma unwind_null: "rpct_unwind_typei h None = Some (Inr None)"
  by (subst rpct_unwind_typei.simps) simp

subsection \<open>Validation of an untyped object\<close>

text \<open>
  C4. For an object with no type instance annotation, validation against a type instance
  passes the type check, and goes on to the validator of the class, if and only if the
  name of the object's builtin type equals the canonical form of the unwound instance, or
  that canonical form is \<open>any\<close>, or it is \<open>nullptr\<close> and the object is null; otherwise one
  incompatibility error is recorded and validation returns false. The unwound instance is
  \<open>raw\<close>, the result of \<^verbatim>\<open>rpct_unwind_typei\<close>.
\<close>

theorem rpct_validate_instance_untyped:
  assumes "ro_typei obj = None"
    and "rpct_unwind_typei h (Some typei) = Some (Inr (Some raw))"
  shows "(Some (rpc_get_type_name (ro_type obj)) = ti_canonical_form (h ! raw)
          \<or> ti_canonical_form (h ! raw) = Some ''any''
          \<or> (ti_canonical_form (h ! raw) = Some ''nullptr'' \<and> ro_type obj = RPC_TYPE_NULL)
         \<longrightarrow> rpct_validate_instance handlers h typei obj errctx
               = validate_step3 handlers h raw (h ! raw) obj errctx)
       \<and> (\<not> (Some (rpc_get_type_name (ro_type obj)) = ti_canonical_form (h ! raw)
               \<or> ti_canonical_form (h ! raw) = Some ''any''
               \<or> (ti_canonical_form (h ! raw) = Some ''nullptr'' \<and> ro_type obj = RPC_TYPE_NULL))
         \<longrightarrow> rpct_validate_instance handlers h typei obj errctx
               = Some (Inr (False,
                    errctx\<lparr>ec_errors := ec_errors errctx
                      @ [\<lparr>err_path = ec_path errctx,
                          err_message = ''Incompatible type '' @ rpc_get_type_name (ro_type obj)
                             @ '', should be '' @ fmt_s (ti_canonical_form (h ! raw)),
                          err_extra = None\<rparr>]\<rparr>)))"
proof -
  from unwind_result[OF assms(2)] have "raw < length h" and "\<not> ti_freed (h ! raw)"
    by simp_all
  then have "deref h raw = Inr (h ! raw)" by (simp add: deref_def)
  with assms show ?thesis
    by (auto simp: rpct_validate_instance_def rpct_add_error_def incompatible_message_def fmt_s_def)
qed

theorem rpct_validate_instance_untyped_witness:
  "rpct_validate_instance (\<lambda>c. Some (\<lambda>h raw obj errctx. (True, errctx)))
     [\<lparr>ti_proxy = False,
       ti_type = Some (Rpct_type ''int64'' None RPC_TYPING_BUILTIN False [] None),
       ti_variable = None, ti_canonical_form = Some ''int64'',
       ti_specializations = [], ti_parent = None,
       ti_refcnt = 1, ti_freed = False\<rparr>] 0
     \<lparr>ro_type = RPC_TYPE_INT64, ro_typei = None, ro_value = (3 :: int)\<rparr>
     \<lparr>ec_path = ''.0'', ec_errors = []\<rparr>
   = Some (Inr (True, \<lparr>ec_path = ''.0'', ec_errors = []\<rparr>))
   \<and> rpct_validate_instance (\<lambda>c. Some (\<lambda>h raw obj errctx. (True, errctx)))
     [\<lparr>ti_proxy = False,
       ti_type = Some (Rpct_type ''int64'' None RPC_TYPING_BUILTIN False [] None),
       ti_variable = None, ti_canonical_form = Some ''int64'',
       ti_specializations = [], ti_parent = None,
       ti_refcnt = 1, ti_freed = False\<rparr>] 0
     \<lparr>ro_type = RPC_TYPE_STRING, ro_typei = None, ro_value = (3 :: int)\<rparr>
     \<lparr>ec_path = ''.0'', ec_errors = []\<rparr>
   = Some (Inr (False, \<lparr>ec_path = ''.0'', ec_errors =
        [\<lparr>err_path = ''.0'', err_message = ''Incompatible type string, should be int64'',
          err_extra = None\<rparr>]\<rparr>))"
proof -
  let ?h = "[\<lparr>ti_proxy = False,
       ti_type = Some (Rpct_type ''int64'' None RPC_TYPING_BUILTIN False [] None),
       ti_variable = None, ti_canonical_form = Some ''int64'',
       ti_specializations = [], ti_parent = None,
       ti_refcnt = 1, ti_freed = False\<rparr>]"
  have u: "rpct_unwind_typei ?h (Some 0) = Some (Inr (Some 0))"
    by (subst rpct_unwind_typei.simps) (simp add: deref_def)
  have a: "rpct_validate_instance (\<lambda>c. Some (\<lambda>h raw obj errctx. (True, errctx))) ?h 0
     \<lparr>ro_type = RPC_TYPE_INT64, ro_typei = None, ro_value = (3 :: int)\<rparr>
     \<lparr>ec_path = ''.0'', ec_errors = []\<rparr>
   = Some (Inr (True, \<lparr>ec_path = ''.0'', ec_errors = []\<rparr>))"
    using rpct_validate_instance_untyped
      [of "\<lparr>ro_type = RPC_TYPE_INT64, ro_typei = None, ro_value = (3 :: int)\<rparr>" ?h 0 0
          "\<lambda>c. Some (\<lambda>h raw obj errctx. (True, errctx))" "\<lparr>ec_path = ''.0'', ec_errors = []\<rparr>", OF _ u]
    by (simp add: validate_step3_def)
  have b: "rpct_validate_instance (\<lambda>c. Some (\<lambda>h raw obj errctx. (True, errctx))) ?h 0
     \<lparr>ro_type = RPC_TYPE_STRING, ro_typei = None, ro_value = (3 :: int)\<rparr>
     \<lparr>ec_path = ''.0'', ec_errors = []\<rparr>
   = Some (Inr (False, \<lparr>ec_path = ''.0'', ec_errors =
        [\<lparr>err_path = ''.0'', err_message = ''Incompatible type string, should be int64'',
          err_extra = None\<rparr>]\<rparr>))"
    using rpct_validate_instance_untyped
      [of "\<lparr>ro_type = RPC_TYPE_STRING, ro_typei = None, ro_value = (3 :: int)\<rparr>" ?h 0 0
          "\<lambda>c. Some (\<lambda>h raw obj errctx. (True, errctx))" "\<lparr>ec_path = ''.0'', ec_errors = []\<rparr>", OF _ u]
    by (simp add: fmt_s_def)
  from a b show ?thesis by simp
qed

subsection \<open>Validation of call arguments\<close>

lemma validate_args_apply_take:
  "validate_args_apply handlers h arguments idx args st
   = validate_args_apply handlers h arguments idx (take (length arguments - idx) args) st"
proof (induction args arbitrary: idx st)
  case Nil
  then show ?case by simp
next
  case (Cons i rest)
  show ?case
  proof (cases "idx \<ge> length arguments")
    case True
    then show ?thesis by simp
  next
    case False
    then obtain k where k: "length arguments - idx = Suc k"
      by (cases "length arguments - idx") auto
    then have k': "length arguments - Suc idx = k" by simp
    show ?thesis
      using False Cons.IH[of "Suc idx"]
      by (simp add: k k' split: option.splits sum.splits prod.splits)
  qed
qed

lemma validate_args_apply_each:
  "validate_args_apply handlers h arguments idx args st
   = validate_each handlers h (zip (map arg_type (drop idx arguments)) args) st"
proof (induction args arbitrary: idx st)
  case Nil
  then show ?case by simp
next
  case (Cons i rest)
  show ?case
  proof (cases "idx \<ge> length arguments")
    case True
    then show ?thesis by simp
  next
    case False
    then have d: "drop idx arguments = arguments ! idx # drop (Suc idx) arguments"
      by (simp add: Cons_nth_drop_Suc)
    have "(if \<not> ok then False else fst st) = (fst st \<and> ok)" for ok
      by simp
    with False Cons.IH[of "Suc idx"] show ?thesis
      by (simp add: d split: option.splits sum.splits prod.splits)
  qed
qed

text \<open>
  C10. For a member with a declared argument list of \<open>N\<close> arguments,
  \<^verbatim>\<open>rpct_validate_args\<close> validates the first \<open>N\<close> elements of the argument array, each
  against the type of the declared argument at its position and in order, and nothing
  else: the verdict and the error array are those of these validations. For an argument
  array longer than \<open>N\<close> it gives what it gives on the first \<open>N\<close> elements alone, so the
  trailing arguments are not validated and change nothing. For a member with no argument
  list it returns true.
\<close>

theorem rpct_validate_args_ignores_extra:
  "(rim_arguments func = None \<longrightarrow>
      rpct_validate_args handlers h func args want_errors = Some (Inr (True, None)))
   \<and> (\<forall>arguments. rim_arguments func = Some arguments \<and> length args > length arguments \<longrightarrow>
        rpct_validate_args handlers h func args want_errors
        = rpct_validate_args handlers h func (take (length arguments) args) want_errors)
   \<and> (\<forall>arguments. rim_arguments func = Some arguments \<longrightarrow>
        rpct_validate_args handlers h func args want_errors
        = (case validate_each handlers h
                  (zip (map arg_type arguments) (take (length arguments) args))
                  (True, \<lparr>ec_path = [], ec_errors = []\<rparr>) of
             None \<Rightarrow> None
           | Some (Inl f) \<Rightarrow> Some (Inl f)
           | Some (Inr (valid, errctx)) \<Rightarrow>
               Some (Inr (valid, if want_errors then Some (ec_errors errctx) else None))))"
proof (intro conjI allI impI)
  assume "rim_arguments func = None"
  then show "rpct_validate_args handlers h func args want_errors = Some (Inr (True, None))"
    by (simp add: rpct_validate_args_def)
next
  fix arguments
  assume a: "rim_arguments func = Some arguments \<and> length args > length arguments"
  have "validate_args_apply handlers h arguments 0 args (True, \<lparr>ec_path = [], ec_errors = []\<rparr>)
      = validate_args_apply handlers h arguments 0 (take (length arguments) args)
          (True, \<lparr>ec_path = [], ec_errors = []\<rparr>)"
    using validate_args_apply_take[of handlers h arguments 0 args] by simp
  with a show "rpct_validate_args handlers h func args want_errors
        = rpct_validate_args handlers h func (take (length arguments) args) want_errors"
    by (simp add: rpct_validate_args_def)
next
  fix arguments
  assume a: "rim_arguments func = Some arguments"
  have "validate_args_apply handlers h arguments 0 args (True, \<lparr>ec_path = [], ec_errors = []\<rparr>)
      = validate_each handlers h (zip (map arg_type arguments) (take (length arguments) args))
          (True, \<lparr>ec_path = [], ec_errors = []\<rparr>)"
    using validate_args_apply_take[of handlers h arguments 0 args]
      validate_args_apply_each[of handlers h arguments 0 "take (length arguments) args"]
    by simp
  with a show "rpct_validate_args handlers h func args want_errors
        = (case validate_each handlers h
                  (zip (map arg_type arguments) (take (length arguments) args))
                  (True, \<lparr>ec_path = [], ec_errors = []\<rparr>) of
             None \<Rightarrow> None
           | Some (Inl f) \<Rightarrow> Some (Inl f)
           | Some (Inr (valid, errctx)) \<Rightarrow>
               Some (Inr (valid, if want_errors then Some (ec_errors errctx) else None)))"
    by (simp add: rpct_validate_args_def)
qed

theorem rpct_validate_args_ignores_extra_witness:
  "rpct_validate_args (\<lambda>c. Some (\<lambda>h raw obj errctx. (True, errctx)))
     [\<lparr>ti_proxy = False,
       ti_type = Some (Rpct_type ''int64'' None RPC_TYPING_BUILTIN False [] None),
       ti_variable = None, ti_canonical_form = Some ''int64'',
       ti_specializations = [], ti_parent = None,
       ti_refcnt = 1, ti_freed = False\<rparr>]
     \<lparr>rim_name = ''neg'', rim_type = RPC_MEMBER_METHOD, rim_description = None,
      rim_arguments = Some [\<lparr>arg_name = ''a'', arg_description = None, arg_type = 0\<rparr>],
      rim_result = None\<rparr>
     [\<lparr>ro_type = RPC_TYPE_STRING, ro_typei = None, ro_value = (120 :: int)\<rparr>,
      \<lparr>ro_type = RPC_TYPE_BOOL, ro_typei = None, ro_value = 1\<rparr>] True
   = Some (Inr (False, Some [\<lparr>err_path = [],
        err_message = ''Incompatible type string, should be int64'', err_extra = None\<rparr>]))
   \<and> rpct_validate_args (\<lambda>c. Some (\<lambda>h raw obj errctx. (True, errctx)))
     [\<lparr>ti_proxy = False,
       ti_type = Some (Rpct_type ''int64'' None RPC_TYPING_BUILTIN False [] None),
       ti_variable = None, ti_canonical_form = Some ''int64'',
       ti_specializations = [], ti_parent = None,
       ti_refcnt = 1, ti_freed = False\<rparr>]
     \<lparr>rim_name = ''neg'', rim_type = RPC_MEMBER_METHOD, rim_description = None,
      rim_arguments = Some [\<lparr>arg_name = ''a'', arg_description = None, arg_type = 0\<rparr>],
      rim_result = None\<rparr>
     [\<lparr>ro_type = RPC_TYPE_STRING, ro_typei = None, ro_value = (120 :: int)\<rparr>,
      \<lparr>ro_type = RPC_TYPE_BOOL, ro_typei = None, ro_value = 1\<rparr>] True
   = rpct_validate_args (\<lambda>c. Some (\<lambda>h raw obj errctx. (True, errctx)))
     [\<lparr>ti_proxy = False,
       ti_type = Some (Rpct_type ''int64'' None RPC_TYPING_BUILTIN False [] None),
       ti_variable = None, ti_canonical_form = Some ''int64'',
       ti_specializations = [], ti_parent = None,
       ti_refcnt = 1, ti_freed = False\<rparr>]
     \<lparr>rim_name = ''neg'', rim_type = RPC_MEMBER_METHOD, rim_description = None,
      rim_arguments = Some [\<lparr>arg_name = ''a'', arg_description = None, arg_type = 0\<rparr>],
      rim_result = None\<rparr>
     [\<lparr>ro_type = RPC_TYPE_STRING, ro_typei = None, ro_value = (120 :: int)\<rparr>] True
   \<and> rpct_validate_args (\<lambda>c. Some (\<lambda>h raw obj errctx. (True, errctx))) []
     \<lparr>rim_name = ''changed'', rim_type = RPC_MEMBER_EVENT, rim_description = None,
      rim_arguments = None, rim_result = None\<rparr>
     [\<lparr>ro_type = RPC_TYPE_INT64, ro_typei = None, ro_value = (2 :: int)\<rparr>] True
   = Some (Inr (True, None))"
proof -
  let ?H = "\<lambda>c :: rpct_class. Some (\<lambda>(h :: rpct_typei list) (raw :: typei_ptr)
              (obj :: int rpc_object) (errctx :: int rpct_error_context). (True, errctx))"
  let ?h = "[\<lparr>ti_proxy = False,
       ti_type = Some (Rpct_type ''int64'' None RPC_TYPING_BUILTIN False [] None),
       ti_variable = None, ti_canonical_form = Some ''int64'',
       ti_specializations = [], ti_parent = None,
       ti_refcnt = 1, ti_freed = False\<rparr>]"
  let ?f = "\<lparr>rim_name = ''neg'', rim_type = RPC_MEMBER_METHOD, rim_description = None,
      rim_arguments = Some [\<lparr>arg_name = ''a'', arg_description = None, arg_type = 0\<rparr>],
      rim_result = None\<rparr>"
  let ?e = "\<lparr>rim_name = ''changed'', rim_type = RPC_MEMBER_EVENT, rim_description = None,
      rim_arguments = None, rim_result = None\<rparr>"
  let ?a = "\<lparr>ro_type = RPC_TYPE_INT64, ro_typei = None, ro_value = (2 :: int)\<rparr>"
  let ?s = "\<lparr>ro_type = RPC_TYPE_STRING, ro_typei = None, ro_value = (120 :: int)\<rparr>"
  let ?b = "\<lparr>ro_type = RPC_TYPE_BOOL, ro_typei = None, ro_value = (1 :: int)\<rparr>"
  have u: "rpct_unwind_typei ?h (Some 0) = Some (Inr (Some 0))"
    by (subst rpct_unwind_typei.simps) (simp add: deref_def)
  have v: "rpct_validate_instance ?H ?h 0 ?s \<lparr>ec_path = [], ec_errors = []\<rparr>
           = Some (Inr (False, \<lparr>ec_path = [], ec_errors = [\<lparr>err_path = [],
               err_message = ''Incompatible type string, should be int64'',
               err_extra = None\<rparr>]\<rparr>))"
    by (simp add: rpct_validate_instance_def u deref_def rpct_add_error_def
                  incompatible_message_def fmt_s_def)
  have 0: "rpct_validate_args ?H ?h ?f [?s, ?b] True
           = Some (Inr (False, Some [\<lparr>err_path = [],
               err_message = ''Incompatible type string, should be int64'',
               err_extra = None\<rparr>]))"
    using rpct_validate_args_ignores_extra[of ?f ?H ?h "[?s, ?b]" True,
            THEN conjunct2, THEN conjunct2, rule_format,
            of "[\<lparr>arg_name = ''a'', arg_description = None, arg_type = 0\<rparr>]"]
    by (simp add: v)
  have 1: "rpct_validate_args ?H ?h ?f [?s, ?b] True = rpct_validate_args ?H ?h ?f [?s] True"
    using rpct_validate_args_ignores_extra[of ?f ?H ?h "[?s, ?b]" True,
            THEN conjunct2, THEN conjunct1, rule_format,
            of "[\<lparr>arg_name = ''a'', arg_description = None, arg_type = 0\<rparr>]"]
    by simp
  have 2: "rpct_validate_args ?H [] ?e [?a] True = Some (Inr (True, None))"
    using rpct_validate_args_ignores_extra[of ?e ?H "[]" "[?a]" True, THEN conjunct1]
    by simp
  from 0 1 2 show ?thesis by simp
qed

subsection \<open>Termination of unwinding\<close>

lemma finite_typedef_edges: "finite (typedef_edges h)"
proof -
  have "typedef_edges h
        \<subseteq> (\<lambda>p. (the (t_definition (the (ti_type (h ! p)))), p)) ` {..<length h}"
    by (auto simp: typedef_edges_def image_iff)
  then show ?thesis
    by (rule finite_subset) simp
qed

lemma typedef_edgeI:
  "p < length h \<Longrightarrow> ti_type (h ! p) = Some type \<Longrightarrow> t_clazz type = RPC_TYPING_TYPEDEF \<Longrightarrow>
   t_definition type = Some q \<Longrightarrow> (q, p) \<in> typedef_edges h"
  by (simp add: typedef_edges_def)

lemma typedef_edgeD:
  "(q, p) \<in> typedef_edges h \<Longrightarrow>
   \<exists>type. ti_type (h ! p) = Some type \<and> t_clazz type = RPC_TYPING_TYPEDEF
          \<and> t_definition type = Some q"
  by (simp add: typedef_edges_def)

text \<open>
  The instances on the definition chain of \<open>p\<close> are \<open>p\<close> itself and the instances on the
  chain of the definition of its typedef.
\<close>

lemma chain_cases:
  assumes "(q, p) \<in> (typedef_edges h)\<^sup>*"
  shows "q = p \<or> (\<exists>z. (z, p) \<in> typedef_edges h \<and> (q, z) \<in> (typedef_edges h)\<^sup>*)"
  using assms by (auto elim: rtranclE)

text \<open>
  C7, as the specification states it, fails for a typedef that has no definition: the
  IDL entry \<^verbatim>\<open>typedef Alias\<close> without a \<^verbatim>\<open>type\<close> key gives a type of class typedef whose
  \<^verbatim>\<open>definition\<close> is \<^verbatim>\<open>NULL\<close>. There is no cycle, the loop ends, and the function returns
  \<^verbatim>\<open>NULL\<close>, not a type instance.
\<close>

theorem rpct_unwind_typei_counterexample:
  "acyclic (typedef_edges
     [\<lparr>ti_proxy = False,
       ti_type = Some (Rpct_type ''Alias'' None RPC_TYPING_TYPEDEF False [] None),
       ti_variable = None, ti_canonical_form = Some ''Alias'',
       ti_specializations = [], ti_parent = None,
       ti_refcnt = 1, ti_freed = False\<rparr>])
   \<and> rpct_unwind_typei
     [\<lparr>ti_proxy = False,
       ti_type = Some (Rpct_type ''Alias'' None RPC_TYPING_TYPEDEF False [] None),
       ti_variable = None, ti_canonical_form = Some ''Alias'',
       ti_specializations = [], ti_parent = None,
       ti_refcnt = 1, ti_freed = False\<rparr>] (Some 0) = Some (Inr None)"
proof -
  let ?h = "[\<lparr>ti_proxy = False,
       ti_type = Some (Rpct_type ''Alias'' None RPC_TYPING_TYPEDEF False [] None),
       ti_variable = None, ti_canonical_form = Some ''Alias'',
       ti_specializations = [], ti_parent = None,
       ti_refcnt = 1, ti_freed = False\<rparr>]"
  have "typedef_edges ?h = {}"
    by (auto simp: typedef_edges_def)
  then have "acyclic (typedef_edges ?h)"
    by (simp add: acyclic_def)
  moreover have "rpct_unwind_typei ?h (Some 0) = Some (Inr None)"
    by (subst rpct_unwind_typei.simps, simp add: deref_def, subst rpct_unwind_typei.simps, simp)
  ultimately show ?thesis by simp
qed

text \<open>
  C7, amended. When the typedefs form no cycle and every instance on the definition chain
  of an instance is realized (it is allocated, not freed, and has a type), unwinding the
  instance returns. It returns \<^verbatim>\<open>NULL\<close> exactly when a typedef on the chain has no
  definition; otherwise it returns an instance on the chain whose type is not a typedef.
\<close>

theorem rpct_unwind_typei_terminates:
  assumes acyclic: "acyclic (typedef_edges h)"
    and realized: "\<forall>q. (q, p) \<in> (typedef_edges h)\<^sup>* \<longrightarrow>
                     q < length h \<and> \<not> ti_freed (h ! q) \<and> ti_type (h ! q) \<noteq> None"
  shows "\<exists>r. rpct_unwind_typei h (Some p) = Some (Inr r)
             \<and> (r = None \<longleftrightarrow>
                  (\<exists>q type. (q, p) \<in> (typedef_edges h)\<^sup>* \<and> ti_type (h ! q) = Some type
                           \<and> t_clazz type = RPC_TYPING_TYPEDEF \<and> t_definition type = None))
             \<and> (\<forall>raw. r = Some raw \<longrightarrow>
                  (raw, p) \<in> (typedef_edges h)\<^sup>* \<and> raw < length h
                  \<and> (\<exists>type. ti_type (h ! raw) = Some type
                             \<and> t_clazz type \<noteq> RPC_TYPING_TYPEDEF))"
proof -
  let ?E = "typedef_edges h"
  let ?undefined = "\<lambda>p. \<exists>q type. (q, p) \<in> ?E\<^sup>* \<and> ti_type (h ! q) = Some type
                           \<and> t_clazz type = RPC_TYPING_TYPEDEF \<and> t_definition type = None"
  have wf: "wf ?E"
    using finite_typedef_edges acyclic by (rule finite_acyclic_wf)
  from wf realized show ?thesis
  proof (induction p rule: wf_induct_rule)
    case (less p)
    from less.prems have p: "p < length h" "\<not> ti_freed (h ! p)" and "ti_type (h ! p) \<noteq> None"
      by auto
    then obtain type where type: "ti_type (h ! p) = Some type"
      by auto
    show ?case
    proof (cases "t_clazz type = RPC_TYPING_TYPEDEF")
      case False
      have no_edge: "(z, p) \<notin> ?E" for z
        using typedef_edgeD[of z p h] type False by auto
      have "\<not> ?undefined p"
      proof
        assume "?undefined p"
        then obtain q type' where q: "(q, p) \<in> ?E\<^sup>*" "ti_type (h ! q) = Some type'"
          "t_clazz type' = RPC_TYPING_TYPEDEF"
          by blast
        from chain_cases[OF q(1)] no_edge have "q = p" by blast
        with q type False show False by simp
      qed
      moreover have "rpct_unwind_typei h (Some p) = Some (Inr (Some p))"
        using p type False by (simp add: unwind_non_typedef)
      ultimately show ?thesis
        using p type False by auto
    next
      case True
      note td = this
      show ?thesis
      proof (cases "t_definition type")
        case None
        have "?undefined p"
          using type td None by blast
        moreover have "rpct_unwind_typei h (Some p) = Some (Inr None)"
          using p type td None by (simp add: unwind_typedef unwind_null)
        ultimately show ?thesis
          by simp
      next
        case (Some q0)
        with p type td have edge: "(q0, p) \<in> ?E"
          by (simp add: typedef_edgeI)
        have only: "z = q0" if "(z, p) \<in> ?E" for z
          using typedef_edgeD[OF that] type Some by simp
        have up: "(q, p) \<in> ?E\<^sup>*" if "(q, q0) \<in> ?E\<^sup>*" for q
          using that edge by (rule rtrancl.rtrancl_into_rtrancl)
        have "\<forall>q. (q, q0) \<in> ?E\<^sup>* \<longrightarrow>
                q < length h \<and> \<not> ti_freed (h ! q) \<and> ti_type (h ! q) \<noteq> None"
          using less.prems up by blast
        from less.IH[OF edge this] obtain r where
          r: "rpct_unwind_typei h (Some q0) = Some (Inr r)"
          and null: "r = None \<longleftrightarrow> ?undefined q0"
          and inst: "\<forall>raw. r = Some raw \<longrightarrow>
                  (raw, q0) \<in> ?E\<^sup>* \<and> raw < length h
                  \<and> (\<exists>type. ti_type (h ! raw) = Some type
                             \<and> t_clazz type \<noteq> RPC_TYPING_TYPEDEF)"
          by blast
        have same: "?undefined p \<longleftrightarrow> ?undefined q0"
        proof
          assume "?undefined p"
          then obtain q type' where q: "(q, p) \<in> ?E\<^sup>*" "ti_type (h ! q) = Some type'"
            "t_clazz type' = RPC_TYPING_TYPEDEF" "t_definition type' = None"
            by blast
          from chain_cases[OF q(1)] show "?undefined q0"
          proof
            assume "q = p"
            with q type Some show ?thesis by simp
          next
            assume "\<exists>z. (z, p) \<in> ?E \<and> (q, z) \<in> ?E\<^sup>*"
            with only have "(q, q0) \<in> ?E\<^sup>*" by blast
            with q show ?thesis by blast
          qed
        next
          assume "?undefined q0"
          with up show "?undefined p" by blast
        qed
        have "rpct_unwind_typei h (Some p) = Some (Inr r)"
          using p type td Some r by (simp add: unwind_typedef)
        with null same inst up show ?thesis
          by auto
      qed
    qed
  qed
qed

theorem rpct_unwind_typei_terminates_witness:
  "rpct_unwind_typei
     [\<lparr>ti_proxy = False,
       ti_type = Some (Rpct_type ''Id'' None RPC_TYPING_TYPEDEF False [] (Some 1)),
       ti_variable = None, ti_canonical_form = Some ''Id'',
       ti_specializations = [], ti_parent = None,
       ti_refcnt = 1, ti_freed = False\<rparr>,
      \<lparr>ti_proxy = False,
       ti_type = Some (Rpct_type ''int64'' None RPC_TYPING_BUILTIN False [] None),
       ti_variable = None, ti_canonical_form = Some ''int64'',
       ti_specializations = [], ti_parent = None,
       ti_refcnt = 1, ti_freed = False\<rparr>] (Some 0) = Some (Inr (Some 1))"
proof -
  let ?h = "[\<lparr>ti_proxy = False,
       ti_type = Some (Rpct_type ''Id'' None RPC_TYPING_TYPEDEF False [] (Some 1)),
       ti_variable = None, ti_canonical_form = Some ''Id'',
       ti_specializations = [], ti_parent = None,
       ti_refcnt = 1, ti_freed = False\<rparr>,
      \<lparr>ti_proxy = False,
       ti_type = Some (Rpct_type ''int64'' None RPC_TYPING_BUILTIN False [] None),
       ti_variable = None, ti_canonical_form = Some ''int64'',
       ti_specializations = [], ti_parent = None,
       ti_refcnt = 1, ti_freed = False\<rparr>]"
  have edges: "typedef_edges ?h = {(1, 0)}"
    by (auto simp: typedef_edges_def less_Suc_eq)
  have star: "(typedef_edges ?h)\<^sup>* = {(0, 0), (1, 1), (1, 0)} \<union> Id"
    unfolding edges by (auto elim: rtranclE)
  have "acyclic ({} :: (typei_ptr \<times> typei_ptr) set)"
    by (simp add: acyclic_def)
  then have a: "acyclic (typedef_edges ?h)"
    unfolding edges by simp
  have r: "\<forall>q. (q, 0) \<in> (typedef_edges ?h)\<^sup>* \<longrightarrow>
             q < length ?h \<and> \<not> ti_freed (?h ! q) \<and> ti_type (?h ! q) \<noteq> None"
    unfolding star by auto
  from rpct_unwind_typei_terminates[OF a r]
  obtain r where 1: "rpct_unwind_typei ?h (Some 0) = Some (Inr r)"
    and 2: "\<forall>raw. r = Some raw \<longrightarrow> (raw, 0) \<in> (typedef_edges ?h)\<^sup>* \<and> raw < length ?h
              \<and> (\<exists>type. ti_type (?h ! raw) = Some type \<and> t_clazz type \<noteq> RPC_TYPING_TYPEDEF)"
    and 3: "r = None \<longleftrightarrow>
              (\<exists>q type. (q, 0) \<in> (typedef_edges ?h)\<^sup>* \<and> ti_type (?h ! q) = Some type
                       \<and> t_clazz type = RPC_TYPING_TYPEDEF \<and> t_definition type = None)"
    by blast
  have "\<not> (\<exists>q type. (q, 0) \<in> (typedef_edges ?h)\<^sup>* \<and> ti_type (?h ! q) = Some type
                       \<and> t_clazz type = RPC_TYPING_TYPEDEF \<and> t_definition type = None)"
  proof clarify
    fix q type
    assume q: "(q, 0) \<in> (typedef_edges ?h)\<^sup>*" and t: "ti_type (?h ! q) = Some type"
      "t_clazz type = RPC_TYPING_TYPEDEF" "t_definition type = None"
    from q have "q = 0 \<or> q = 1"
      unfolding star by auto
    with t show False
      by auto
  qed
  with 3 obtain raw where raw: "r = Some raw"
    by auto
  with 2 have "raw < length ?h"
    and "\<exists>type. ti_type (?h ! raw) = Some type \<and> t_clazz type \<noteq> RPC_TYPING_TYPEDEF"
    by auto
  then have "raw = 1"
    by (auto simp: less_Suc_eq)
  with 1 raw show ?thesis by simp
qed

subsection \<open>Failed validation of the arguments of a call\<close>

lemma validate_args_verdict_false:
  "rpct_validate_args handlers h member args True = Some (Inr (False, errors)) \<Longrightarrow>
   \<exists>errs. errors = Some errs"
  by (auto simp: rpct_validate_args_def split: option.splits sum.splits prod.splits)

text \<open>
  C2. When the arguments of an inbound call, not answered yet, fail the validation against
  the declared interface member, the call is answered with one error frame: code
  \<open>EINVAL\<close>, the message \<open>Validation failed: n errors\<close> and the array of the \<open>n\<close>
  validation errors; the registered function is not invoked.
\<close>

theorem failed_validation_answers_einval:
  assumes "rpct_find_if_member ctx (ric_interface ic) (ric_name ic) = Some member"
    and "rpct_validate_args handlers (typeis ctx) member args True = Some (Inr (False, errors))"
    and "\<not> ric_responded ic"
  shows "\<exists>errs. errors = Some errs
          \<and> rpc_context_serve_call handlers ctx method ic args
            = Some (Inr (ic\<lparr>ric_responded := True,
                            ric_sent := ric_sent ic
                              @ [Error_frame \<lparr>error_code = EINVAL,
                                   error_message =
                                     ''Validation failed: '' @ fmt_jd (length errs) @ '' errors'',
                                   error_extra = errs\<rparr>]\<rparr>,
                          None))"
proof -
  from validate_args_verdict_false[OF assms(2)] obtain errs where "errors = Some errs" ..
  with assms show ?thesis
    by (simp add: rpc_context_serve_call_def rpct_pre_call_hook_def rpc_function_error_ex_def)
qed

theorem failed_validation_answers_einval_witness:
  "rpc_context_serve_call (\<lambda>c. Some (\<lambda>h raw obj errctx. (True, errctx)))
     \<lparr>types = Map.empty,
      interfaces = [''com.ex.Calc'' \<mapsto> \<lparr>if_name = ''com.ex.Calc'', if_members = [''neg'' \<mapsto>
        \<lparr>rim_name = ''neg'', rim_type = RPC_MEMBER_METHOD, rim_description = None,
         rim_arguments = Some [\<lparr>arg_name = ''a'', arg_description = None, arg_type = 0\<rparr>],
         rim_result = None\<rparr>]\<rparr>],
      typei_cache = Map.empty,
      typeis = [\<lparr>ti_proxy = False,
         ti_type = Some (Rpct_type ''int64'' None RPC_TYPING_BUILTIN False [] None),
         ti_variable = None, ti_canonical_form = Some ''int64'',
         ti_specializations = [], ti_parent = None,
       ti_refcnt = 1, ti_freed = False\<rparr>]\<rparr>
     (\<lambda>args. \<lparr>ro_type = RPC_TYPE_INT64, ro_typei = None, ro_value = (0 :: int)\<rparr>)
     \<lparr>ric_interface = ''com.ex.Calc'', ric_name = ''neg'', ric_responded = False, ric_sent = []\<rparr>
     [\<lparr>ro_type = RPC_TYPE_STRING, ro_typei = None, ro_value = 120\<rparr>]
   = Some (Inr (\<lparr>ric_interface = ''com.ex.Calc'', ric_name = ''neg'', ric_responded = True,
        ric_sent = [Error_frame \<lparr>error_code = 22,
           error_message = ''Validation failed: 1 errors'',
           error_extra = [\<lparr>err_path = [],
              err_message = ''Incompatible type string, should be int64'',
              err_extra = None\<rparr>]\<rparr>]\<rparr>, None))"
proof -
  let ?H = "\<lambda>c :: rpct_class. Some (\<lambda>(h :: rpct_typei list) (raw :: typei_ptr)
              (obj :: int rpc_object) (errctx :: int rpct_error_context). (True, errctx))"
  let ?h = "[\<lparr>ti_proxy = False,
         ti_type = Some (Rpct_type ''int64'' None RPC_TYPING_BUILTIN False [] None),
         ti_variable = None, ti_canonical_form = Some ''int64'',
         ti_specializations = [], ti_parent = None,
       ti_refcnt = 1, ti_freed = False\<rparr>]"
  let ?m = "\<lparr>rim_name = ''neg'', rim_type = RPC_MEMBER_METHOD, rim_description = None,
         rim_arguments = Some [\<lparr>arg_name = ''a'', arg_description = None, arg_type = 0\<rparr>],
         rim_result = None\<rparr>"
  let ?ctx = "\<lparr>types = Map.empty,
      interfaces = [''com.ex.Calc'' \<mapsto> \<lparr>if_name = ''com.ex.Calc'', if_members = [''neg'' \<mapsto> ?m]\<rparr>],
      typei_cache = Map.empty, typeis = ?h\<rparr>"
  let ?ic = "\<lparr>ric_interface = ''com.ex.Calc'', ric_name = ''neg'', ric_responded = False,
      ric_sent = ([] :: int rpc_frame list)\<rparr>"
  let ?args = "[\<lparr>ro_type = RPC_TYPE_STRING, ro_typei = None, ro_value = (120 :: int)\<rparr>]"
  let ?errs = "[\<lparr>err_path = [], err_message = ''Incompatible type string, should be int64'',
              err_extra = (None :: int rpc_object option)\<rparr>]"
  have u: "rpct_unwind_typei ?h (Some 0) = Some (Inr (Some 0))"
    by (subst rpct_unwind_typei.simps) (simp add: deref_def)
  have m: "rpct_find_if_member ?ctx (ric_interface ?ic) (ric_name ?ic) = Some ?m"
    by (simp add: rpct_find_if_member_def)
  have v: "rpct_validate_args ?H (typeis ?ctx) ?m ?args True = Some (Inr (False, Some ?errs))"
    by (simp add: rpct_validate_args_def rpct_validate_instance_def u deref_def
                  rpct_add_error_def incompatible_message_def fmt_s_def)
  have r: "\<not> ric_responded ?ic"
    by simp
  from failed_validation_answers_einval[OF m v r] show ?thesis
    by (simp add: EINVAL_def fmt_jd.simps)
qed

subsection \<open>Canonical form\<close>

lemma append_substrs_comma_joined:
  "append_substrs i (i + length substrs) substrs ret
   = ret @ comma_joined (map fmt_s_or_empty substrs)"
proof (induction substrs arbitrary: i ret)
  case Nil
  then show ?case by simp
next
  case (Cons s rest)
  show ?case
  proof (cases rest)
    case Nil
    then show ?thesis by simp
  next
    case (Cons t rest')
    with Cons.IH[of "Suc i" "ret @ fmt_s_or_empty s @ '',''"] show ?thesis
      by simp
  qed
qed

lemma collect_results_length:
  "collect_results rs = Some (Inr xs) \<Longrightarrow> length xs = length rs"
proof (induction rs arbitrary: xs rule: collect_results.induct)
  case (4 x rest)
  then show ?case
    by (auto split: option.splits sum.splits)
qed simp_all

text \<open>
  What the source computes for a generic instance: the forms of the specializations in the
  order of iteration of the table.
\<close>

lemma canonical_type_generic:
  assumes "p < length h" and "\<not> ti_freed (h ! p)" and "\<not> ti_proxy (h ! p)"
    and "ti_type (h ! p) = Some type" and "t_generic type"
    and "length (iter (ti_specializations (h ! p))) = length (ti_specializations (h ! p))"
    and "collect_results
           (map (\<lambda>entry. canonical_type_bounded iter (length h) h (snd entry))
              (iter (ti_specializations (h ! p)))) = Some (Inr substrs)"
  shows "rpct_canonical_type iter h p
         = Some (Inr (Some (t_name type @ ''<''
                  @ comma_joined (map fmt_s_or_empty substrs) @ ''>'')))"
proof -
  from collect_results_length[OF assms(7)] assms(6)
  have "length substrs = length (ti_specializations (h ! p))"
    by simp
  with append_substrs_comma_joined[of 0 substrs "t_name type @ ''<''"]
  have "append_substrs 0 (length (ti_specializations (h ! p))) substrs (t_name type @ ''<'')
        = (t_name type @ ''<'') @ comma_joined (map fmt_s_or_empty substrs)"
    by simp
  with assms show ?thesis
    by (simp add: rpct_canonical_type_def deref_def)
qed

lemma canonical_type_pair_reversed:
  "rpct_canonical_type rev
     [\<lparr>ti_proxy = False,
       ti_type = Some (Rpct_type ''int64'' None RPC_TYPING_BUILTIN False [] None),
       ti_variable = None, ti_canonical_form = Some ''int64'',
       ti_specializations = [], ti_parent = None,
       ti_refcnt = 1, ti_freed = False\<rparr>,
      \<lparr>ti_proxy = False,
       ti_type = Some (Rpct_type ''string'' None RPC_TYPING_BUILTIN False [] None),
       ti_variable = None, ti_canonical_form = Some ''string'',
       ti_specializations = [], ti_parent = None,
       ti_refcnt = 1, ti_freed = False\<rparr>,
      \<lparr>ti_proxy = False,
       ti_type = Some (Rpct_type ''Pair'' None RPC_TYPING_STRUCT True [''A'', ''B''] None),
       ti_variable = None, ti_canonical_form = None,
       ti_specializations = [(''A'', 0), (''B'', 1)], ti_parent = None,
       ti_refcnt = 1, ti_freed = False\<rparr>] 2
   = Some (Inr (Some ''Pair<string,int64>''))"
  by (simp add: rpct_canonical_type_def deref_def fmt_s_or_empty_def)

text \<open>
  C5. The claim: the canonical form of a fully instantiated generic instance lists the
  canonical forms of the specializations in the order in which the generic variables were
  declared. \<^verbatim>\<open>rpct_canonical_type\<close> lists them in the order in which the hash table of the
  specializations is iterated. For \<^verbatim>\<open>struct Pair<A, B>\<close> instantiated from the declaration
  \<^verbatim>\<open>Pair<int64,string>\<close> the table gets the keys \<open>A\<close> and \<open>B\<close> in this order;
  \<^verbatim>\<open>g_str_hash\<close> gives 177638 and 177639, which a fresh \<^verbatim>\<open>GHashTable\<close> (8 slots, modulus 7)
  places in slot 6 (slot 3 in later GLib versions) and in slot 0, so the iteration visits
  \<open>B\<close> first. With that order the instance gets the canonical form
  \<^verbatim>\<open>Pair<string,int64>\<close>, although \<open>A\<close> is bound to \<open>int64\<close> and \<open>B\<close> to \<open>string\<close>; the
  declaration order gives \<^verbatim>\<open>Pair<int64,string>\<close>.
\<close>

theorem rpct_instantiate_type_pair_hash_order:
  "(case rpct_instantiate_type
           (\<lambda>decl. if decl = ''Pair<int64,string>'' then Some (''Pair'', Some ''int64,string'')
                    else Some (decl, None))
           (\<lambda>name ctx. ctx) rev 2 ''Pair<int64,string>'' None None None
           \<lparr>types = [''int64'' \<mapsto> Rpct_type ''int64'' None RPC_TYPING_BUILTIN False [] None,
                     ''string'' \<mapsto> Rpct_type ''string'' None RPC_TYPING_BUILTIN False [] None,
                     ''Pair'' \<mapsto> Rpct_type ''Pair'' None RPC_TYPING_STRUCT True [''A'', ''B''] None],
            interfaces = Map.empty, typei_cache = Map.empty, typeis = []\<rparr> of
      Some (Inr (Some p, ctx)) \<Rightarrow>
        Some (ti_canonical_form (typeis ctx ! p),
              map (\<lambda>(var, q). (var, ti_canonical_form (typeis ctx ! q)))
                (ti_specializations (typeis ctx ! p)))
    | _ \<Rightarrow> None)
   = Some (Some ''Pair<string,int64>'', [(''A'', Some ''int64''), (''B'', Some ''string'')])
   \<and> canonical_form_spec ''Pair'' [''A'', ''B''] [''A'' \<mapsto> ''int64'', ''B'' \<mapsto> ''string'']
     = ''Pair<int64,string>''"
  by (simp add: numeral_2_eq_2 rpct_find_type_fuzzy_def rpct_find_type_def alloc_typei_def
                instantiate_finish_def rpct_canonical_type_def deref_def rpct_parse_type_def
                fmt_s_or_empty_def canonical_form_spec_def insert_specialization_def
                release_replaced_def)

subsection \<open>The cache of non-generic instances\<close>

lemma find_type_hit:
  "types ctx name = Some type \<Longrightarrow> rpct_find_type chain_load name ctx = (Some type, ctx)"
  by (simp add: rpct_find_type_def)

lemma find_type_found:
  "rpct_find_type chain_load name ctx = (Some type, ctx') \<Longrightarrow> types ctx' name = Some type"
  by (auto simp: rpct_find_type_def Let_def split: option.splits)

lemma find_type_fuzzy_verbatim:
  "rpct_find_type chain_load name ctx = (Some type, ctx') \<Longrightarrow>
   rpct_find_type_fuzzy chain_load name origin ctx = (Some type, ctx')"
  by (simp add: rpct_find_type_fuzzy_def)

lemma canonical_type_non_generic:
  "p < length h \<Longrightarrow> \<not> ti_freed (h ! p) \<Longrightarrow> \<not> ti_proxy (h ! p) \<Longrightarrow>
   ti_type (h ! p) = Some type \<Longrightarrow> \<not> t_generic type \<Longrightarrow>
   rpct_canonical_type iter h p = Some (Inr (Some (t_name type)))"
  by (simp add: rpct_canonical_type_def deref_def)

text \<open>
  A declaration that is the name of a non-generic type, with a live instance in the cache
  under that name: the call retains the instance and returns it.
\<close>

lemma instantiate_cached:
  assumes "instance_regex decl = Some (decl, declvars)"
    and "types ctx decl = Some type"
    and "\<not> t_generic type"
    and "typei_cache ctx decl = Some p"
    and "p < length (typeis ctx)" and "\<not> ti_freed (typeis ctx ! p)"
  shows "rpct_instantiate_type instance_regex chain_load iter (Suc depth) decl parent ptype
           origin ctx
         = Some (Inr (Some p,
             ctx\<lparr>typeis := (typeis ctx)[p := (typeis ctx ! p)
                     \<lparr>ti_refcnt := ti_refcnt (typeis ctx ! p) + 1\<rparr>]\<rparr>))"
  using assms
  by (simp add: find_type_fuzzy_verbatim[OF find_type_hit] rpct_typei_retain_def deref_def)

text \<open>
  The same declaration with no instance in the cache under that name: the call allocates
  an instance and enters it into the cache under the name.
\<close>

lemma instantiate_fresh:
  assumes "instance_regex decl = Some (decl, declvars)"
    and "rpct_find_type chain_load decl ctx = (Some type, ctx1)"
    and "\<not> t_generic type"
    and "t_name type = decl"
    and "typei_cache ctx1 decl = None"
  shows "\<exists>ctx2. rpct_instantiate_type instance_regex chain_load iter (Suc depth) decl parent ptype
                  origin ctx
                = Some (Inr (Some (length (typeis ctx1)), ctx2))
              \<and> types ctx2 = types ctx1
              \<and> typei_cache ctx2 decl = Some (length (typeis ctx1))
              \<and> length (typeis ctx1) < length (typeis ctx2)
              \<and> \<not> ti_freed (typeis ctx2 ! length (typeis ctx1))"
  using assms
  by (simp add: find_type_fuzzy_verbatim alloc_typei_def instantiate_finish_def
                canonical_type_non_generic release_replaced_def Let_def)

text \<open>
  Two calls in a row with the name of a non-generic type, the second in the context that
  the first has left, return the same pointer, provided that the instance which the cache
  holds at the start, if any, is live.
\<close>

lemma instantiate_twice_in_a_row:
  assumes regex: "instance_regex decl = Some (decl, declvars)"
    and found: "rpct_find_type chain_load decl ctx = (Some type, ctx0)"
    and non_generic: "\<not> t_generic type"
    and name: "t_name type = decl"
    and live: "\<forall>p. typei_cache ctx0 decl = Some p \<longrightarrow>
                 p < length (typeis ctx0) \<and> \<not> ti_freed (typeis ctx0 ! p)"
  shows "\<exists>p ctx1 ctx2.
           rpct_instantiate_type instance_regex chain_load iter (Suc depth) decl parent ptype
             origin ctx = Some (Inr (Some p, ctx1))
         \<and> rpct_instantiate_type instance_regex chain_load iter (Suc depth') decl parent' ptype'
             origin' ctx1 = Some (Inr (Some p, ctx2))
         \<and> typei_cache ctx1 decl = Some p \<and> typei_cache ctx2 decl = Some p"
proof (cases "typei_cache ctx0 decl")
  case None
  have "\<exists>ctx1. rpct_instantiate_type instance_regex chain_load iter (Suc depth) decl parent ptype
                  origin ctx
                = Some (Inr (Some (length (typeis ctx0)), ctx1))
              \<and> types ctx1 = types ctx0
              \<and> typei_cache ctx1 decl = Some (length (typeis ctx0))
              \<and> length (typeis ctx0) < length (typeis ctx1)
              \<and> \<not> ti_freed (typeis ctx1 ! length (typeis ctx0))"
    using regex found non_generic name None by (rule instantiate_fresh)
  then obtain ctx1 where
    first: "rpct_instantiate_type instance_regex chain_load iter (Suc depth) decl parent ptype
              origin ctx = Some (Inr (Some (length (typeis ctx0)), ctx1))"
    and types1: "types ctx1 = types ctx0"
    and cache1: "typei_cache ctx1 decl = Some (length (typeis ctx0))"
    and live1: "length (typeis ctx0) < length (typeis ctx1)"
      "\<not> ti_freed (typeis ctx1 ! length (typeis ctx0))"
    by blast
  from find_type_found[OF found] types1 have "types ctx1 decl = Some type"
    by simp
  with regex
  have "rpct_instantiate_type instance_regex chain_load iter (Suc depth') decl parent' ptype'
          origin' ctx1
        = Some (Inr (Some (length (typeis ctx0)),
            ctx1\<lparr>typeis := (typeis ctx1)[length (typeis ctx0) :=
                    (typeis ctx1 ! length (typeis ctx0))
                    \<lparr>ti_refcnt := ti_refcnt (typeis ctx1 ! length (typeis ctx0)) + 1\<rparr>]\<rparr>))"
    using non_generic cache1 live1 by (rule instantiate_cached)
  with first cache1 show ?thesis by simp
next
  case (Some p)
  with live have p: "p < length (typeis ctx0)" "\<not> ti_freed (typeis ctx0 ! p)"
    by simp_all
  let ?ctx1 = "ctx0\<lparr>typeis := (typeis ctx0)[p := (typeis ctx0 ! p)
                     \<lparr>ti_refcnt := ti_refcnt (typeis ctx0 ! p) + 1\<rparr>]\<rparr>"
  have first: "rpct_instantiate_type instance_regex chain_load iter (Suc depth) decl parent ptype
                 origin ctx = Some (Inr (Some p, ?ctx1))"
    using regex found non_generic Some p
    by (simp add: find_type_fuzzy_verbatim rpct_typei_retain_def deref_def)
  have "types ?ctx1 decl = Some type"
    using find_type_found[OF found] by simp
  with regex
  have "rpct_instantiate_type instance_regex chain_load iter (Suc depth') decl parent' ptype'
          origin' ?ctx1
        = Some (Inr (Some p,
            ?ctx1\<lparr>typeis := (typeis ?ctx1)[p := (typeis ?ctx1 ! p)
                     \<lparr>ti_refcnt := ti_refcnt (typeis ?ctx1 ! p) + 1\<rparr>]\<rparr>))"
    using non_generic
  proof (rule instantiate_cached)
    show "typei_cache ?ctx1 decl = Some p" using Some by simp
    show "p < length (typeis ?ctx1)" using p by simp
    show "\<not> ti_freed (typeis ?ctx1 ! p)" using p by simp
  qed
  with first Some show ?thesis by simp
qed

text \<open>
  C3. The claim: two calls of \<^verbatim>\<open>rpct_instantiate_type\<close> with the canonical form of a
  non-generic type return the same instance, the cache mapping each canonical form to a
  single shared instance. The source looks the cache up under the name as written in the
  declaration (\<^verbatim>\<open>decltype\<close>) and enters the instance under its canonical form, the full
  name of the type. For the type \<open>a.T\<close> of a file with the namespace \<open>a\<close>: the call with
  \<open>a.T\<close> allocates the instance 0 and caches it; the call with the short name \<open>T\<close> from
  that file finds the type, misses the cache under \<open>T\<close>, allocates the instance 1 and
  enters it under \<open>a.T\<close>, which releases and frees the instance 0; the next call with
  \<open>a.T\<close> returns the instance 1. The two calls with the canonical form return different
  pointers, and the first of them is freed while its caller holds it.
\<close>

theorem rpct_instantiate_type_cache_replaced:
  "(case rpct_instantiate_type (\<lambda>decl. Some (decl, None)) (\<lambda>name ctx. ctx) id (Suc 0) ''a.T''
           None None None
           \<lparr>types = [''a.T'' \<mapsto> Rpct_type ''a.T'' None RPC_TYPING_STRUCT False [] None],
            interfaces = Map.empty, typei_cache = Map.empty, typeis = []\<rparr> of
      Some (Inr (Some first, ctx1)) \<Rightarrow>
        (case rpct_instantiate_type (\<lambda>decl. Some (decl, None)) (\<lambda>name ctx. ctx) id (Suc 0) ''T''
                None None (Some \<lparr>file_path = ''/idl/a.yaml'', ns = Some ''a'', uses = []\<rparr>)
                ctx1 of
           Some (Inr (Some short, ctx2)) \<Rightarrow>
             (case rpct_instantiate_type (\<lambda>decl. Some (decl, None)) (\<lambda>name ctx. ctx) id (Suc 0)
                     ''a.T'' None None None ctx2 of
                Some (Inr (Some second, ctx3)) \<Rightarrow>
                  Some (first, short, second,
                        ti_canonical_form (typeis ctx3 ! first),
                        ti_canonical_form (typeis ctx3 ! second),
                        ti_freed (typeis ctx2 ! first), typei_cache ctx3 ''a.T'')
              | _ \<Rightarrow> None)
         | _ \<Rightarrow> None)
    | _ \<Rightarrow> None)
   = Some (0, 1, 1, Some ''a.T'', Some ''a.T'', True, Some 1)"
  by (simp add: rpct_find_type_fuzzy_def rpct_find_type_def full_name_def alloc_typei_def
                instantiate_finish_def rpct_canonical_type_def deref_def release_replaced_def
                rpct_typei_release_def rpct_typei_retain_def)

subsection \<open>The parent walk of the compatibility check\<close>

text \<open>
  The loop compares the name of each ancestor of the actual type with the name of the
  actual type itself, not with the name of the declared type. Where no type has an
  ancestor of its own name, the walk finds nothing: a declared \<open>Base\<close> rejects an instance
  of \<open>Derived\<close>, a non-generic type that inherits from \<open>Base\<close>.
\<close>

lemma parent_named_own_name:
  "parent_named ''Derived''
     (Rpct_type ''Derived'' (Some (Rpct_type ''Base'' None RPC_TYPING_STRUCT False [] None))
        RPC_TYPING_STRUCT False [] None) = False"
  by simp

lemma rpct_type_is_compatible_inherited:
  "rpct_type_is_compatible
     \<lparr>ti_proxy = False,
      ti_type = Some (Rpct_type ''Base'' None RPC_TYPING_STRUCT False [] None),
      ti_variable = None, ti_canonical_form = Some ''Base'',
      ti_specializations = [], ti_parent = None,
       ti_refcnt = 1, ti_freed = False\<rparr>
     \<lparr>ti_proxy = False,
      ti_type = Some (Rpct_type ''Derived''
                  (Some (Rpct_type ''Base'' None RPC_TYPING_STRUCT False [] None))
                  RPC_TYPING_STRUCT False [] None),
      ti_variable = None, ti_canonical_form = Some ''Derived'',
      ti_specializations = [], ti_parent = None,
       ti_refcnt = 1, ti_freed = False\<rparr>
   = Inr False"
  by (simp add: rpct_type_is_compatible_def)

end
